theory Spec2Isabelle
  imports Main "HOL-Library.AList"
begin

section \<open>Values, dictionaries and exceptions\<close>

text \<open>
  The values the handlers of \<^verbatim>\<open>main.py\<close> move around: parsed JSON bodies and stored
  documents. A Python \<^verbatim>\<open>dict\<close> is an association list in insertion order;
  \<open>map_of\<close> is the lookup, \<open>AList.update\<close> is \<^verbatim>\<open>d[k] = v\<close> (in place when the key
  exists, appended otherwise) and \<open>AList.delete\<close> removes a key. \<open>PObjectId\<close> stands for
  the identifier object the store stamps on a document. Floating point numbers are left
  out of the value type.
\<close>

datatype pyval =
    PNone
  | PBool bool
  | PInt int
  | PStr string
  | PObjectId string
  | PList "pyval list"
  | PDict "(string \<times> pyval) list"

type_synonym doc = "(string \<times> pyval) list"

text \<open>One located violation of a request body, as the validation layer reports it.\<close>

datatype field_error = FieldError string string

text \<open>
  Every exception a handler can let escape. \<open>HTTPException\<close> carries the status code and
  the detail; \<open>RequestException\<close> is a network failure or a timeout of \<^verbatim>\<open>requests.get\<close>.
\<close>

datatype exn =
    HTTPException int string
  | RequestException
  | JSONDecodeError
  | TypeError
  | AttributeError
  | ValueError
  | StorageUnavailable
  | ValidationError "field_error list"

text \<open>\<^verbatim>\<open>d.get(k, default)\<close> and \<^verbatim>\<open>d.get(k)\<close>.\<close>

definition dict_get :: "doc \<Rightarrow> string \<Rightarrow> pyval \<Rightarrow> pyval" where
  "dict_get d k dflt = (case map_of d k of None \<Rightarrow> dflt | Some v \<Rightarrow> v)"

section \<open>Serialization\<close>

text \<open>
  \<^verbatim>\<open>
  def serialize_doc(doc):
      if not doc:
          return doc
      d = dict(doc)
      if "_id" in d:
          d["id"] = str(d.pop("_id"))
      return d
  \<close>
  The argument is a document or \<^verbatim>\<open>None\<close>. Python's \<^verbatim>\<open>str\<close> on a stored value is the
  parameter \<open>str_of\<close>. The right-hand side of the assignment runs first, so the key
  \<^verbatim>\<open>_id\<close> is removed before \<^verbatim>\<open>id\<close> is written.
\<close>

definition serialize_doc :: "(pyval \<Rightarrow> string) \<Rightarrow> doc option \<Rightarrow> doc option" where
  "serialize_doc str_of doc =
     (case doc of
        None \<Rightarrow> doc
      | Some d0 \<Rightarrow>
          if d0 = [] then doc
          else (case map_of d0 ''_id'' of
                  None \<Rightarrow> Some d0
                | Some v \<Rightarrow> Some (AList.update ''id'' (PStr (str_of v)) (AList.delete ''_id'' d0))))"

section \<open>Storage access\<close>

text \<open>
  The module \<^verbatim>\<open>database.py\<close> (\<^verbatim>\<open>db\<close>, \<^verbatim>\<open>create_document\<close>, \<^verbatim>\<open>get_documents\<close>) is imported by
  \<^verbatim>\<open>main.py\<close>. The handle \<^verbatim>\<open>db\<close> is \<^verbatim>\<open>None\<close> when no store is configured, so the
  handlers receive a \<open>store option\<close>. A store holds its collections by name, each in
  insertion order, and the counter its identifiers are drawn from.
\<close>

record store =
  colls :: "(string \<times> doc list) list"
  next_id :: nat

fun str_nat :: "nat \<Rightarrow> string" where
  "str_nat n =
     (if n < 10 then [''0123456789'' ! n]
      else str_nat (n div 10) @ [''0123456789'' ! (n mod 10)])"

declare str_nat.simps [simp del]

text \<open>Python's rendering of an \<^verbatim>\<open>int\<close> in an f-string: decimal, with a minus sign.\<close>

definition str_int :: "int \<Rightarrow> string" where
  "str_int i = (if i < 0 then ''-'' @ str_nat (nat (- i)) else str_nat (nat i))"

definition coll_docs :: "store \<Rightarrow> string \<Rightarrow> doc list" where
  "coll_docs st c = (case map_of (colls st) c of None \<Rightarrow> [] | Some ds \<Rightarrow> ds)"

text \<open>An equality filter on zero or more fields.\<close>

definition matches :: "doc \<Rightarrow> doc \<Rightarrow> bool" where
  "matches flt d = list_all (\<lambda>(k, v). map_of d k = Some v) flt"

text \<open>
  Modelled from the spec: \<^verbatim>\<open>get_documents\<close> of \<^verbatim>\<open>database.py\<close>, which is not among the
  sources. The storage contract reads: query(collectionName, filter, limit) returns up
  to limit documents matching an equality filter (on zero or more fields), in the
  store's natural order (insertion order); a missing collection returns an empty list,
  never an error; an unreachable store is StorageUnavailable.
\<close>

definition get_documents :: "store option \<Rightarrow> string \<Rightarrow> doc \<Rightarrow> int \<Rightarrow> exn + doc list" where
  "get_documents db collection_name filter_dict limit =
     (case db of
        None \<Rightarrow> Inl StorageUnavailable
      | Some st \<Rightarrow> Inr (take (nat limit) (filter (matches filter_dict) (coll_docs st collection_name))))"

text \<open>
  Modelled from the spec: \<^verbatim>\<open>create_document\<close> of \<^verbatim>\<open>database.py\<close>, which is not among the
  sources. The storage contract reads: create(collectionName, validatedDocument)
  persists the document, assigns a unique identifier and returns it, and fails with
  StorageUnavailable if the store cannot be reached. The result carries the store after
  the call.
\<close>

definition create_document ::
  "store option \<Rightarrow> string \<Rightarrow> doc \<Rightarrow> store option \<times> (exn + string)" where
  "create_document db collection_name data =
     (case db of
        None \<Rightarrow> (db, Inl StorageUnavailable)
      | Some st \<Rightarrow>
          let oid = str_nat (next_id st);
              stored = (''_id'', PObjectId oid) # data
          in (Some (st\<lparr>colls := AList.update collection_name
                                   (coll_docs st collection_name @ [stored]) (colls st),
                        next_id := Suc (next_id st)\<rparr>),
              Inr oid))"

section \<open>List and fetch routes\<close>

text \<open>
  A keyword parameter with a default: \<open>Omitted\<close> when the request does not carry it.
\<close>

datatype 'a arg = Omitted | Given 'a

definition arg_or :: "'a \<Rightarrow> 'a arg \<Rightarrow> 'a" where
  "arg_or dflt a = (case a of Omitted \<Rightarrow> dflt | Given v \<Rightarrow> v)"

text \<open>\<^verbatim>\<open>[serialize_doc(i) for i in items]\<close> on the outcome of the query.\<close>

definition serialize_all ::
  "(pyval \<Rightarrow> string) \<Rightarrow> exn + doc list \<Rightarrow> exn + doc option list" where
  "serialize_all str_of r =
     (case r of Inl e \<Rightarrow> Inl e | Inr items \<Rightarrow> Inr (map (\<lambda>i. serialize_doc str_of (Some i)) items))"

text \<open>
  \<^verbatim>\<open>
  def list_projects(featured: Optional[bool] = None, limit: int = 50):
      query = {}
      if featured is not None:
          query["featured"] = featured
      items = get_documents("project", query, limit)
      return [serialize_doc(i) for i in items]
  \<close>
\<close>

definition list_projects ::
  "(pyval \<Rightarrow> string) \<Rightarrow> store option \<Rightarrow> bool option arg \<Rightarrow> int arg \<Rightarrow> exn + doc option list" where
  "list_projects str_of db featured_arg limit_arg =
     (let featured = arg_or None featured_arg;
          limit = arg_or 50 limit_arg;
          query = (case featured of None \<Rightarrow> [] | Some b \<Rightarrow> AList.update ''featured'' (PBool b) [])
      in serialize_all str_of (get_documents db ''project'' query limit))"

definition list_testimonials ::
  "(pyval \<Rightarrow> string) \<Rightarrow> store option \<Rightarrow> int arg \<Rightarrow> exn + doc option list" where
  "list_testimonials str_of db limit_arg =
     (let limit = arg_or 50 limit_arg
      in serialize_all str_of (get_documents db ''testimonial'' [] limit))"

definition list_guestbook ::
  "(pyval \<Rightarrow> string) \<Rightarrow> store option \<Rightarrow> int arg \<Rightarrow> exn + doc option list" where
  "list_guestbook str_of db limit_arg =
     (let limit = arg_or 100 limit_arg
      in serialize_all str_of (get_documents db ''guestbookentry'' [] limit))"

definition list_bucket ::
  "(pyval \<Rightarrow> string) \<Rightarrow> store option \<Rightarrow> int arg \<Rightarrow> exn + doc option list" where
  "list_bucket str_of db limit_arg =
     (let limit = arg_or 100 limit_arg
      in serialize_all str_of (get_documents db ''bucketitem'' [] limit))"

definition list_uses ::
  "(pyval \<Rightarrow> string) \<Rightarrow> store option \<Rightarrow> int arg \<Rightarrow> exn + doc option list" where
  "list_uses str_of db limit_arg =
     (let limit = arg_or 200 limit_arg
      in serialize_all str_of (get_documents db ''useitem'' [] limit))"

text \<open>
  \<^verbatim>\<open>
  def list_blog(published: Optional[bool] = True, limit: int = 50):
      query = {}
      if published is not None:
          query["published"] = published
      items = get_documents("blogpost", query, limit)
      return [serialize_doc(i) for i in items]
  \<close>
\<close>

definition list_blog ::
  "(pyval \<Rightarrow> string) \<Rightarrow> store option \<Rightarrow> bool option arg \<Rightarrow> int arg \<Rightarrow> exn + doc option list" where
  "list_blog str_of db published_arg limit_arg =
     (let published = arg_or (Some True) published_arg;
          limit = arg_or 50 limit_arg;
          query = (case published of None \<Rightarrow> [] | Some b \<Rightarrow> AList.update ''published'' (PBool b) [])
      in serialize_all str_of (get_documents db ''blogpost'' query limit))"

text \<open>
  \<^verbatim>\<open>
  def get_blog(slug: str):
      items = get_documents("blogpost", {"slug": slug}, 1)
      if not items:
          raise HTTPException(status_code=404, detail="Post not found")
      return serialize_doc(items[0])
  \<close>
\<close>

definition get_blog :: "(pyval \<Rightarrow> string) \<Rightarrow> store option \<Rightarrow> string \<Rightarrow> exn + doc option" where
  "get_blog str_of db slug =
     (case get_documents db ''blogpost'' [(''slug'', PStr slug)] 1 of
        Inl e \<Rightarrow> Inl e
      | Inr items \<Rightarrow>
          (case items of
             [] \<Rightarrow> Inl (HTTPException 404 ''Post not found'')
           | i # _ \<Rightarrow> Inr (serialize_doc str_of (Some i))))"

section \<open>Contact messages\<close>

text \<open>
  \<^verbatim>\<open>
  class ContactMessage(BaseModel):
      name: str
      email: EmailStr
      message: str
      subject: Optional[str] = None
      source: Optional[str] = None
  \<close>
  The request body is validated against the model before the handler runs. The check of
  the email syntax is the parameter \<open>email_check\<close>: the normalised address, or \<open>None\<close>
  when the text is not a syntactically valid address.
\<close>

record contact_message =
  cm_name :: string
  cm_email :: string
  cm_message :: string
  cm_subject :: "string option"
  cm_source :: "string option"

definition required_str :: "doc \<Rightarrow> string \<Rightarrow> field_error list + string" where
  "required_str body field =
     (case map_of body field of
        None \<Rightarrow> Inl [FieldError field ''missing'']
      | Some (PStr s) \<Rightarrow> Inr s
      | Some _ \<Rightarrow> Inl [FieldError field ''string_type''])"

definition optional_str :: "doc \<Rightarrow> string \<Rightarrow> field_error list + string option" where
  "optional_str body field =
     (case map_of body field of
        None \<Rightarrow> Inr None
      | Some PNone \<Rightarrow> Inr None
      | Some (PStr s) \<Rightarrow> Inr (Some s)
      | Some _ \<Rightarrow> Inl [FieldError field ''string_type''])"

definition email_str ::
  "(string \<Rightarrow> string option) \<Rightarrow> doc \<Rightarrow> string \<Rightarrow> field_error list + string" where
  "email_str email_check body field =
     (case required_str body field of
        Inl errs \<Rightarrow> Inl errs
      | Inr s \<Rightarrow>
          (case email_check s of
             None \<Rightarrow> Inl [FieldError field ''value_error'']
           | Some a \<Rightarrow> Inr a))"

definition errors_of :: "field_error list + 'a \<Rightarrow> field_error list" where
  "errors_of r = (case r of Inl errs \<Rightarrow> errs | Inr _ \<Rightarrow> [])"

definition value_of :: "'a \<Rightarrow> field_error list + 'a \<Rightarrow> 'a" where
  "value_of dflt r = (case r of Inl _ \<Rightarrow> dflt | Inr v \<Rightarrow> v)"

text \<open>Every field is checked, and every violation is reported.\<close>

definition validate_ContactMessage ::
  "(string \<Rightarrow> string option) \<Rightarrow> pyval \<Rightarrow> exn + contact_message" where
  "validate_ContactMessage email_check payload =
     (case payload of
        PDict body \<Rightarrow>
          (let n = required_str body ''name'';
               e = email_str email_check body ''email'';
               m = required_str body ''message'';
               sj = optional_str body ''subject'';
               sr = optional_str body ''source'';
               errs = errors_of n @ errors_of e @ errors_of m @ errors_of sj @ errors_of sr
           in if errs = []
              then Inr \<lparr>cm_name = value_of [] n, cm_email = value_of [] e,
                        cm_message = value_of [] m, cm_subject = value_of None sj,
                        cm_source = value_of None sr\<rparr>
              else Inl (ValidationError errs))
      | _ \<Rightarrow> Inl (ValidationError [FieldError ''body'' ''model_type'']))"

definition opt_val :: "string option \<Rightarrow> pyval" where
  "opt_val v = (case v of None \<Rightarrow> PNone | Some s \<Rightarrow> PStr s)"

text \<open>The validated message as the dictionary handed to the store.\<close>

definition contact_dump :: "contact_message \<Rightarrow> doc" where
  "contact_dump m =
     [(''name'', PStr (cm_name m)), (''email'', PStr (cm_email m)),
      (''message'', PStr (cm_message m)), (''subject'', opt_val (cm_subject m)),
      (''source'', opt_val (cm_source m))]"

text \<open>
  \<^verbatim>\<open>
  def contact(message: ContactMessage):
      _id = create_document("contactmessage", message)
      return {"id": _id, "status": "received"}
  \<close>
\<close>

definition contact :: "store option \<Rightarrow> contact_message \<Rightarrow> store option \<times> (exn + doc)" where
  "contact db message =
     (case create_document db ''contactmessage'' (contact_dump message) of
        (db', Inl e) \<Rightarrow> (db', Inl e)
      | (db', Inr oid) \<Rightarrow> (db', Inr [(''id'', PStr oid), (''status'', PStr ''received'')]))"

text \<open>The route \<^verbatim>\<open>POST /api/contact\<close>: validation, then the handler.\<close>

definition contact_route ::
  "(string \<Rightarrow> string option) \<Rightarrow> store option \<Rightarrow> pyval \<Rightarrow> store option \<times> (exn + doc)" where
  "contact_route email_check db payload =
     (case validate_ContactMessage email_check payload of
        Inl e \<Rightarrow> (db, Inl e)
      | Inr message \<Rightarrow> contact db message)"

section \<open>The upstream API\<close>

text \<open>
  \<^verbatim>\<open>requests.get(url, headers=headers, timeout=10)\<close> is a call of the upstream, a
  function from the request to its outcome: \<open>Inl\<close> when the call raises (network failure,
  timeout), a response otherwise. \<open>resp_json\<close> is the parsed body, \<open>None\<close> when the body
  is not JSON and \<^verbatim>\<open>.json()\<close> raises. Each handler returns the requests it made, in order,
  beside its outcome.
\<close>

record request =
  url :: string
  headers :: "(string \<times> string) list"
  timeout :: nat

record response =
  status_code :: int
  resp_text :: string
  resp_json :: "pyval option"

type_synonym upstream = "request \<Rightarrow> exn + response"

definition GITHUB_API :: string where
  "GITHUB_API = ''https://api.github.com''"

text \<open>
  \<^verbatim>\<open>
  headers = {"Accept": "application/vnd.github+json"}
  token = os.getenv("GITHUB_TOKEN")
  if token:
      headers["Authorization"] = f"Bearer {token}"
  \<close>
  Both handlers open with these lines.
\<close>

definition github_headers :: "(string \<Rightarrow> string option) \<Rightarrow> (string \<times> string) list" where
  "github_headers getenv =
     (let headers = [(''Accept'', ''application/vnd.github+json'')]
      in case getenv ''GITHUB_TOKEN'' of
           None \<Rightarrow> headers
         | Some token \<Rightarrow>
             if token = [] then headers
             else AList.update ''Authorization'' (''Bearer '' @ token) headers)"

text \<open>Iterating a value with \<^verbatim>\<open>for\<close>: a dictionary yields its keys, a string its characters.\<close>

definition py_iter :: "pyval \<Rightarrow> exn + pyval list" where
  "py_iter v =
     (case v of
        PList xs \<Rightarrow> Inr xs
      | PDict kvs \<Rightarrow> Inr (map (\<lambda>kv. PStr (fst kv)) kvs)
      | PStr s \<Rightarrow> Inr (map (\<lambda>c. PStr [c]) s)
      | _ \<Rightarrow> Inl TypeError)"

text \<open>
  \<^verbatim>\<open>int(v)\<close>. What \<^verbatim>\<open>int\<close> makes of a string is the parameter \<open>int_of_str\<close>, \<open>None\<close> when
  it raises \<^verbatim>\<open>ValueError\<close>.
\<close>

definition py_int :: "(string \<Rightarrow> int option) \<Rightarrow> pyval \<Rightarrow> exn + int" where
  "py_int int_of_str v =
     (case v of
        PInt i \<Rightarrow> Inr i
      | PBool b \<Rightarrow> Inr (if b then 1 else 0)
      | PStr s \<Rightarrow> (case int_of_str s of None \<Rightarrow> Inl ValueError | Some i \<Rightarrow> Inr i)
      | _ \<Rightarrow> Inl TypeError)"

text \<open>\<^verbatim>\<open>int(r.get("stargazers_count", 0))\<close>; only a dictionary has \<^verbatim>\<open>get\<close>.\<close>

definition star_count :: "(string \<Rightarrow> int option) \<Rightarrow> pyval \<Rightarrow> exn + int" where
  "star_count int_of_str r =
     (case r of
        PDict d \<Rightarrow> py_int int_of_str (dict_get d ''stargazers_count'' (PInt 0))
      | _ \<Rightarrow> Inl AttributeError)"

text \<open>
  \<^verbatim>\<open>
  for r in ...:
      stars += int(r.get("stargazers_count", 0))
  \<close>
\<close>

fun add_stars :: "(string \<Rightarrow> int option) \<Rightarrow> int \<Rightarrow> pyval list \<Rightarrow> exn + int" where
  "add_stars int_of_str stars [] = Inr stars"
| "add_stars int_of_str stars (r # rs) =
     (case star_count int_of_str r of
        Inl e \<Rightarrow> Inl e
      | Inr n \<Rightarrow> add_stars int_of_str (stars + n) rs)"

definition sum_stars :: "(string \<Rightarrow> int option) \<Rightarrow> response \<Rightarrow> exn + int" where
  "sum_stars int_of_str repos_resp =
     (case resp_json repos_resp of
        None \<Rightarrow> Inl JSONDecodeError
      | Some body \<Rightarrow>
          (case py_iter body of
             Inl e \<Rightarrow> Inl e
           | Inr rs \<Rightarrow> add_stars int_of_str 0 rs))"

text \<open>
  \<^verbatim>\<open>
  def github_stats(user: str):
      ...
      user_resp = requests.get(f"{GITHUB_API}/users/{user}", headers=headers, timeout=10)
      if user_resp.status_code != 200:
          raise HTTPException(status_code=user_resp.status_code, detail=user_resp.text)
      repos_resp = requests.get(
          f"{GITHUB_API}/users/{user}/repos?per_page=100&sort=updated",
          headers=headers, timeout=10)
      stars = 0
      if repos_resp.status_code == 200:
          for r in repos_resp.json():
              stars += int(r.get("stargazers_count", 0))
      data = user_resp.json()
      return {"followers": data.get("followers", 0),
              "public_repos": data.get("public_repos", 0),
              "stars": stars}
  \<close>
\<close>

definition profile_request :: "(string \<Rightarrow> string option) \<Rightarrow> string \<Rightarrow> request" where
  "profile_request getenv user =
     \<lparr>url = GITHUB_API @ ''/users/'' @ user, headers = github_headers getenv, timeout = 10\<rparr>"

definition starred_request :: "(string \<Rightarrow> string option) \<Rightarrow> string \<Rightarrow> request" where
  "starred_request getenv user =
     \<lparr>url = GITHUB_API @ ''/users/'' @ user @ ''/repos?per_page=100&sort=updated'',
      headers = github_headers getenv, timeout = 10\<rparr>"

definition github_stats ::
  "(string \<Rightarrow> int option) \<Rightarrow> (string \<Rightarrow> string option) \<Rightarrow> upstream \<Rightarrow> string
     \<Rightarrow> request list \<times> (exn + doc)" where
  "github_stats int_of_str getenv requests_get user =
     (let user_req = profile_request getenv user
      in case requests_get user_req of
           Inl e \<Rightarrow> ([user_req], Inl e)
         | Inr user_resp \<Rightarrow>
             if status_code user_resp \<noteq> 200
             then ([user_req], Inl (HTTPException (status_code user_resp) (resp_text user_resp)))
             else
               (let repos_req = starred_request getenv user
                in case requests_get repos_req of
                     Inl e \<Rightarrow> ([user_req, repos_req], Inl e)
                   | Inr repos_resp \<Rightarrow>
                       (case (if status_code repos_resp = 200
                              then sum_stars int_of_str repos_resp else Inr 0) of
                          Inl e \<Rightarrow> ([user_req, repos_req], Inl e)
                        | Inr stars \<Rightarrow>
                            (case resp_json user_resp of
                               None \<Rightarrow> ([user_req, repos_req], Inl JSONDecodeError)
                             | Some (PDict data) \<Rightarrow>
                                 ([user_req, repos_req],
                                  Inr [(''followers'', dict_get data ''followers'' (PInt 0)),
                                       (''public_repos'', dict_get data ''public_repos'' (PInt 0)),
                                       (''stars'', PInt stars)])
                             | Some _ \<Rightarrow> ([user_req, repos_req], Inl AttributeError)))))"

text \<open>The projection of one repository; only a dictionary has \<^verbatim>\<open>get\<close>.\<close>

definition map_repo :: "pyval \<Rightarrow> exn + doc" where
  "map_repo r =
     (case r of
        PDict d \<Rightarrow>
          Inr [(''name'', dict_get d ''name'' PNone),
               (''full_name'', dict_get d ''full_name'' PNone),
               (''description'', dict_get d ''description'' PNone),
               (''html_url'', dict_get d ''html_url'' PNone),
               (''language'', dict_get d ''language'' PNone),
               (''stargazers_count'', dict_get d ''stargazers_count'' PNone),
               (''forks_count'', dict_get d ''forks_count'' PNone),
               (''topics'', dict_get d ''topics'' (PList [])),
               (''homepage'', dict_get d ''homepage'' PNone)]
      | _ \<Rightarrow> Inl AttributeError)"

fun map_repos :: "pyval list \<Rightarrow> exn + doc list" where
  "map_repos [] = Inr []"
| "map_repos (r # rs) =
     (case map_repo r of
        Inl e \<Rightarrow> Inl e
      | Inr m \<Rightarrow> (case map_repos rs of Inl e \<Rightarrow> Inl e | Inr ms \<Rightarrow> Inr (m # ms)))"

text \<open>
  \<^verbatim>\<open>
  def github_repos(user: str, limit: int = 12):
      ...
      resp = requests.get(
          f"{GITHUB_API}/users/{user}/repos?per_page={min(limit, 100)}&sort=updated",
          headers=headers, timeout=10)
      if resp.status_code != 200:
          raise HTTPException(status_code=resp.status_code, detail=resp.text)
      repos = resp.json()
      mapped = [{...} for r in repos]
      return mapped
  \<close>
\<close>

definition repos_url :: "string \<Rightarrow> int \<Rightarrow> string" where
  "repos_url user limit =
     GITHUB_API @ ''/users/'' @ user @ ''/repos?per_page='' @ str_int (min limit 100) @ ''&sort=updated''"

definition repos_request :: "(string \<Rightarrow> string option) \<Rightarrow> string \<Rightarrow> int \<Rightarrow> request" where
  "repos_request getenv user limit =
     \<lparr>url = repos_url user limit, headers = github_headers getenv, timeout = 10\<rparr>"

definition github_repos ::
  "(string \<Rightarrow> string option) \<Rightarrow> upstream \<Rightarrow> string \<Rightarrow> int arg
     \<Rightarrow> request list \<times> (exn + doc list)" where
  "github_repos getenv requests_get user limit_arg =
     (let limit = arg_or 12 limit_arg;
          req = repos_request getenv user limit
      in case requests_get req of
           Inl e \<Rightarrow> ([req], Inl e)
         | Inr resp \<Rightarrow>
             if status_code resp \<noteq> 200
             then ([req], Inl (HTTPException (status_code resp) (resp_text resp)))
             else
               (case resp_json resp of
                  None \<Rightarrow> ([req], Inl JSONDecodeError)
                | Some repos \<Rightarrow>
                    (case py_iter repos of
                       Inl e \<Rightarrow> ([req], Inl e)
                     | Inr rs \<Rightarrow> ([req], map_repos rs))))"

section \<open>The diagnostic route\<close>

text \<open>
  The status texts of \<^verbatim>\<open>/test\<close> hold characters outside ASCII and are cut by
  \<^verbatim>\<open>str(e)[:80]\<close>, which counts code points: here a Python string is the list of its
  code points. \<open>u\<close> reads an ASCII literal; the three marks are U+2705, U+274C and
  U+26A0 U+FE0F.
\<close>

type_synonym ustr = "nat list"

definition u :: "string \<Rightarrow> ustr" where
  "u s = map of_char s"

definition mark_ok :: ustr where "mark_ok = [0x2705]"
definition mark_no :: ustr where "mark_no = [0x274C]"
definition mark_warn :: ustr where "mark_warn = [0x26A0, 0xFE0F]"

record diagnostics =
  backend :: ustr
  database :: ustr
  database_url :: ustr
  database_name :: ustr
  connection_status :: ustr
  collections :: "ustr list"

text \<open>
  \<^verbatim>\<open>
  def test_database():
      response = {
          "backend": "(ok) Running",
          "database": "(no) Not Available",
          "database_url": "(ok) Set" if os.getenv("DATABASE_URL") else "(no) Not Set",
          "database_name": os.getenv("DATABASE_NAME") or "(no) Not Set",
          "connection_status": "Not Connected",
          "collections": []
      }
      try:
          if db is not None:
              response["database"] = "(ok) Available"
              try:
                  response["collections"] = db.list_collection_names()[:10]
                  response["connection_status"] = "Connected"
                  response["database"] = "(ok) Connected & Working"
              except Exception as e:
                  response["database"] = f"(warn) Connected but error: {str(e)[:80]}"
      except Exception as e:
          response["database"] = f"(no) Error: {str(e)[:80]}"
      return response
  \<close>
  (the marks written out as (ok), (no), (warn)). The handle is \<open>None\<close> when \<^verbatim>\<open>db\<close> is
  \<^verbatim>\<open>None\<close>; otherwise it is the outcome of \<^verbatim>\<open>db.list_collection_names()\<close>, \<open>Inl\<close> the text
  of the exception it raises. A \<^verbatim>\<open>try\<close> block is a value of a sum type and its
  \<^verbatim>\<open>except\<close> clause the case on \<open>Inl\<close>; the outcome of the handler is again a sum, \<open>Inl\<close>
  an exception that escapes.
\<close>

definition test_database ::
  "(string \<Rightarrow> ustr option) \<Rightarrow> (ustr + ustr list) option \<Rightarrow> ustr + diagnostics" where
  "test_database getenv db =
     (let response =
            \<lparr>backend = mark_ok @ u '' Running'',
             database = mark_no @ u '' Not Available'',
             database_url =
               (case getenv ''DATABASE_URL'' of
                  None \<Rightarrow> mark_no @ u '' Not Set''
                | Some v \<Rightarrow> if v = [] then mark_no @ u '' Not Set'' else mark_ok @ u '' Set''),
             database_name =
               (case getenv ''DATABASE_NAME'' of
                  None \<Rightarrow> mark_no @ u '' Not Set''
                | Some v \<Rightarrow> if v = [] then mark_no @ u '' Not Set'' else v),
             connection_status = u ''Not Connected'',
             collections = []\<rparr>;
          outer =
            (case db of
               None \<Rightarrow> Inr response
             | Some names_call \<Rightarrow>
                 (let response1 = response\<lparr>database := mark_ok @ u '' Available''\<rparr>;
                      inner =
                        (case names_call of
                           Inl e \<Rightarrow> Inl e
                         | Inr names \<Rightarrow>
                             Inr (response1\<lparr>collections := take 10 names,
                                            connection_status := u ''Connected'',
                                            database := mark_ok @ u '' Connected & Working''\<rparr>))
                  in case inner of
                       Inl e \<Rightarrow>
                         Inr (response1\<lparr>database := mark_warn @ u '' Connected but error: '' @ take 80 e\<rparr>)
                     | Inr r \<Rightarrow> Inr r))
      in case outer of
           Inl e \<Rightarrow> Inr (response\<lparr>database := mark_no @ u '' Error: '' @ take 80 e\<rparr>)
         | Inr r \<Rightarrow> Inr r)"

section \<open>Notions the properties are stated with\<close>

text \<open>
  The star count of a repository as the specification words it: the value of
  \<^verbatim>\<open>stargazers_count\<close>, a missing count being zero.
\<close>

definition spec_star_count :: "pyval \<Rightarrow> int" where
  "spec_star_count r =
     (case r of
        PDict d \<Rightarrow> (case map_of d ''stargazers_count'' of Some (PInt n) \<Rightarrow> n | _ \<Rightarrow> 0)
      | _ \<Rightarrow> 0)"

text \<open>A repository entry of the upstream: an object whose star count is absent or an integer.\<close>

definition repo_counted :: "pyval \<Rightarrow> bool" where
  "repo_counted r =
     (case r of
        PDict d \<Rightarrow>
          (case map_of d ''stargazers_count'' of
             None \<Rightarrow> True
           | Some (PInt n) \<Rightarrow> True
           | Some _ \<Rightarrow> False)
      | _ \<Rightarrow> False)"

definition is_dict :: "pyval \<Rightarrow> bool" where
  "is_dict v = (case v of PDict d \<Rightarrow> True | _ \<Rightarrow> False)"

text \<open>The nine fields of the repository projection.\<close>

definition repo_fields :: "string list" where
  "repo_fields =
     [''name'', ''full_name'', ''description'', ''html_url'', ''language'',
      ''stargazers_count'', ''forks_count'', ''topics'', ''homepage'']"

text \<open>
  The projection of a repository as the specification words it: each of the nine fields
  with the value the upstream gave it, \<^verbatim>\<open>None\<close> for a field the upstream left out and the
  empty list for missing \<^verbatim>\<open>topics\<close>; nothing else of the repository.
\<close>

definition spec_field :: "doc \<Rightarrow> string \<Rightarrow> pyval" where
  "spec_field d k =
     (case map_of d k of
        Some v \<Rightarrow> v
      | None \<Rightarrow> if k = ''topics'' then PList [] else PNone)"

definition spec_projection :: "pyval \<Rightarrow> doc" where
  "spec_projection r =
     (case r of PDict d \<Rightarrow> map (\<lambda>k. (k, spec_field d k)) repo_fields | _ \<Rightarrow> [])"


text \<open>
  \<^verbatim>\<open>str\<close> on the identifiers a store stamps is the text of the identifier; the examples
  below run \<open>serialize_doc\<close> with it.
\<close>

definition str_id :: "pyval \<Rightarrow> string" where
  "str_id v = (case v of PObjectId h \<Rightarrow> h | PStr s \<Rightarrow> s | _ \<Rightarrow> [])"

section \<open>Properties of serialization and of the list routes\<close>

lemma serialize_doc_keeps:
  assumes "k \<noteq> ''_id''" and "k \<noteq> ''id''"
  shows "\<exists>r. serialize_doc str_of (Some d) = Some r \<and> map_of r k = map_of d k"
  using assms
  by (auto simp: serialize_doc_def AList.update_conv' AList.delete_conv' split: option.splits)

lemma serialize_doc_with_id:
  assumes "map_of d ''_id'' = Some v"
  shows "\<exists>r. serialize_doc str_of (Some d) = Some r
       \<and> map_of r ''id'' = Some (PStr (str_of v))
       \<and> map_of r ''_id'' = None
       \<and> (\<forall>k. k \<noteq> ''_id'' \<and> k \<noteq> ''id'' \<longrightarrow> map_of r k = map_of d k)"
proof -
  from assms have ne: "d \<noteq> []" by auto
  let ?r = "AList.update ''id'' (PStr (str_of v)) (AList.delete ''_id'' d)"
  have "serialize_doc str_of (Some d) = Some ?r"
    using assms ne by (simp add: serialize_doc_def)
  moreover have "map_of ?r ''id'' = Some (PStr (str_of v))"
    by (simp add: AList.update_conv')
  moreover have "map_of ?r ''_id'' = None"
    by (simp add: AList.update_conv' AList.delete_conv')
  moreover have "\<forall>k. k \<noteq> ''_id'' \<and> k \<noteq> ''id'' \<longrightarrow> map_of ?r k = map_of d k"
    by (simp add: AList.update_conv' AList.delete_conv')
  ultimately show ?thesis by blast
qed

lemma serialize_doc_without_id:
  "map_of d ''_id'' = None \<Longrightarrow> serialize_doc str_of (Some d) = Some d"
  by (simp add: serialize_doc_def)

lemma get_documents_Some:
  "get_documents (Some st) c q l = Inr (take (nat l) (filter (matches q) (coll_docs st c)))"
  by (simp add: get_documents_def)

lemma get_documents_None: "get_documents None c q l = Inl StorageUnavailable"
  by (simp add: get_documents_def)

lemma serialize_all_Inr:
  "serialize_all str_of (Inr items) = Inr (map (\<lambda>i. serialize_doc str_of (Some i)) items)"
  by (simp add: serialize_all_def)

lemma serialize_all_result:
  "serialize_all str_of x = Inr rs \<Longrightarrow>
     \<exists>items. x = Inr items \<and> rs = map (\<lambda>i. serialize_doc str_of (Some i)) items"
  by (cases x) (auto simp: serialize_all_def)

lemma serialize_all_Inl: "serialize_all str_of (Inl e) = Inl e"
  by (simp add: serialize_all_def)

text \<open>
  Claim C6. Serialization replaces the internal identifier field \<^verbatim>\<open>_id\<close> by the public
  string field \<^verbatim>\<open>id\<close> and leaves every other field as it is; an absent document
  (\<^verbatim>\<open>None\<close>) and an empty one are returned as they are, and a document without \<^verbatim>\<open>_id\<close>
  is returned unchanged. Every read route (the six lists and the fetch by slug) returns
  the serialized form of the documents the store selected.
\<close>

theorem serialize_doc_replaces_identifier:
  "serialize_doc str_of None = None
   \<and> serialize_doc str_of (Some []) = Some []
   \<and> (map_of d ''_id'' = None \<longrightarrow> serialize_doc str_of (Some d) = Some d)
   \<and> (map_of d ''_id'' = Some v \<longrightarrow>
        (\<exists>r. serialize_doc str_of (Some d) = Some r
           \<and> map_of r ''id'' = Some (PStr (str_of v))
           \<and> map_of r ''_id'' = None
           \<and> (\<forall>k. k \<noteq> ''_id'' \<and> k \<noteq> ''id'' \<longrightarrow> map_of r k = map_of d k)))
   \<and> (list_projects str_of db fa la = Inr rs \<longrightarrow>
        (\<exists>items. get_documents db ''project''
                   (case arg_or None fa of None \<Rightarrow> [] | Some b \<Rightarrow> [(''featured'', PBool b)])
                   (arg_or 50 la) = Inr items
           \<and> rs = map (\<lambda>i. serialize_doc str_of (Some i)) items))
   \<and> (list_testimonials str_of db la = Inr rs \<longrightarrow>
        (\<exists>items. get_documents db ''testimonial'' [] (arg_or 50 la) = Inr items
           \<and> rs = map (\<lambda>i. serialize_doc str_of (Some i)) items))
   \<and> (list_guestbook str_of db la = Inr rs \<longrightarrow>
        (\<exists>items. get_documents db ''guestbookentry'' [] (arg_or 100 la) = Inr items
           \<and> rs = map (\<lambda>i. serialize_doc str_of (Some i)) items))
   \<and> (list_bucket str_of db la = Inr rs \<longrightarrow>
        (\<exists>items. get_documents db ''bucketitem'' [] (arg_or 100 la) = Inr items
           \<and> rs = map (\<lambda>i. serialize_doc str_of (Some i)) items))
   \<and> (list_uses str_of db la = Inr rs \<longrightarrow>
        (\<exists>items. get_documents db ''useitem'' [] (arg_or 200 la) = Inr items
           \<and> rs = map (\<lambda>i. serialize_doc str_of (Some i)) items))
   \<and> (list_blog str_of db pa la = Inr rs \<longrightarrow>
        (\<exists>items. get_documents db ''blogpost''
                   (case arg_or (Some True) pa of None \<Rightarrow> [] | Some b \<Rightarrow> [(''published'', PBool b)])
                   (arg_or 50 la) = Inr items
           \<and> rs = map (\<lambda>i. serialize_doc str_of (Some i)) items))
   \<and> (get_blog str_of db slug = Inr r' \<longrightarrow>
        (\<exists>i items. get_documents db ''blogpost'' [(''slug'', PStr slug)] 1 = Inr (i # items)
           \<and> r' = serialize_doc str_of (Some i)))"
proof -
  have a: "serialize_doc str_of None = None" "serialize_doc str_of (Some []) = Some []"
    by (simp_all add: serialize_doc_def)
  have b: "map_of d ''_id'' = None \<longrightarrow> serialize_doc str_of (Some d) = Some d"
    by (simp add: serialize_doc_without_id)
  have c: "map_of d ''_id'' = Some v \<longrightarrow>
        (\<exists>r. serialize_doc str_of (Some d) = Some r
           \<and> map_of r ''id'' = Some (PStr (str_of v))
           \<and> map_of r ''_id'' = None
           \<and> (\<forall>k. k \<noteq> ''_id'' \<and> k \<noteq> ''id'' \<longrightarrow> map_of r k = map_of d k))"
    using serialize_doc_with_id by blast
  have p: "list_projects str_of db fa la = Inr rs \<longrightarrow>
        (\<exists>items. get_documents db ''project''
                   (case arg_or None fa of None \<Rightarrow> [] | Some b \<Rightarrow> [(''featured'', PBool b)])
                   (arg_or 50 la) = Inr items
           \<and> rs = map (\<lambda>i. serialize_doc str_of (Some i)) items)"
    using serialize_all_result by (fastforce simp: list_projects_def Let_def split: option.splits)
  have t: "list_testimonials str_of db la = Inr rs \<longrightarrow>
        (\<exists>items. get_documents db ''testimonial'' [] (arg_or 50 la) = Inr items
           \<and> rs = map (\<lambda>i. serialize_doc str_of (Some i)) items)"
    using serialize_all_result by (fastforce simp: list_testimonials_def Let_def)
  have g: "list_guestbook str_of db la = Inr rs \<longrightarrow>
        (\<exists>items. get_documents db ''guestbookentry'' [] (arg_or 100 la) = Inr items
           \<and> rs = map (\<lambda>i. serialize_doc str_of (Some i)) items)"
    using serialize_all_result by (fastforce simp: list_guestbook_def Let_def)
  have k: "list_bucket str_of db la = Inr rs \<longrightarrow>
        (\<exists>items. get_documents db ''bucketitem'' [] (arg_or 100 la) = Inr items
           \<and> rs = map (\<lambda>i. serialize_doc str_of (Some i)) items)"
    using serialize_all_result by (fastforce simp: list_bucket_def Let_def)
  have us: "list_uses str_of db la = Inr rs \<longrightarrow>
        (\<exists>items. get_documents db ''useitem'' [] (arg_or 200 la) = Inr items
           \<and> rs = map (\<lambda>i. serialize_doc str_of (Some i)) items)"
    using serialize_all_result by (fastforce simp: list_uses_def Let_def)
  have bl: "list_blog str_of db pa la = Inr rs \<longrightarrow>
        (\<exists>items. get_documents db ''blogpost''
                   (case arg_or (Some True) pa of None \<Rightarrow> [] | Some b \<Rightarrow> [(''published'', PBool b)])
                   (arg_or 50 la) = Inr items
           \<and> rs = map (\<lambda>i. serialize_doc str_of (Some i)) items)"
    using serialize_all_result by (fastforce simp: list_blog_def Let_def split: option.splits)
  have gb: "get_blog str_of db slug = Inr r' \<longrightarrow>
        (\<exists>i items. get_documents db ''blogpost'' [(''slug'', PStr slug)] 1 = Inr (i # items)
           \<and> r' = serialize_doc str_of (Some i))"
    by (auto simp: get_blog_def split: sum.splits list.splits)
  from a b c p t g k us bl gb show ?thesis by blast
qed

theorem serialize_doc_replaces_identifier_witness:
  "map_of [(''_id'', PObjectId ''a1''), (''title'', PStr ''x'')] ''_id'' = Some (PObjectId ''a1'')
   \<and> (\<exists>r. serialize_doc str_id (Some [(''_id'', PObjectId ''a1''), (''title'', PStr ''x'')]) = Some r
          \<and> map_of r ''id'' = Some (PStr ''a1'')
          \<and> map_of r ''_id'' = None
          \<and> map_of r ''title'' = Some (PStr ''x''))"
proof -
  let ?d = "[(''_id'', PObjectId ''a1''), (''title'', PStr ''x'')]"
  have h: "map_of ?d ''_id'' = Some (PObjectId ''a1'')" by simp
  note T = serialize_doc_replaces_identifier
    [where str_of = str_id and d = "?d" and v = "PObjectId ''a1''"]
  note T4 = T [THEN conjunct2, THEN conjunct2, THEN conjunct2, THEN conjunct1]
  from T4 h obtain r where r: "serialize_doc str_id (Some ?d) = Some r"
    "map_of r ''id'' = Some (PStr (str_id (PObjectId ''a1'')))" "map_of r ''_id'' = None"
    "\<forall>k. k \<noteq> ''_id'' \<and> k \<noteq> ''id'' \<longrightarrow> map_of r k = map_of ?d k"
    by blast
  from r(4) have "map_of r ''title'' = map_of ?d ''title''" by simp
  then have t: "map_of r ''title'' = Some (PStr ''x'')" by simp
  from r(2) have i: "map_of r ''id'' = Some (PStr ''a1'')" by (simp add: str_id_def)
  from h r(1) i r(3) t show ?thesis by blast
qed

text \<open>
  Claim C5. On a reachable store every list route returns, and the number of documents
  it returns never exceeds the requested limit (a count is never below zero, so under a
  negative limit nothing is returned) or, when the request carries no limit, the default
  of the route: 50 for projects, testimonials and blog, 100 for guestbook and bucket, 200
  for uses. On an unreachable store no document is returned at all.
\<close>

theorem list_routes_respect_limit:
  "(\<exists>rs. list_projects str_of (Some st) fa (Given l) = Inr rs \<and> int (length rs) \<le> max 0 l)
   \<and> (\<exists>rs. list_projects str_of (Some st) fa Omitted = Inr rs \<and> length rs \<le> 50)
   \<and> (\<exists>rs. list_testimonials str_of (Some st) (Given l) = Inr rs \<and> int (length rs) \<le> max 0 l)
   \<and> (\<exists>rs. list_testimonials str_of (Some st) Omitted = Inr rs \<and> length rs \<le> 50)
   \<and> (\<exists>rs. list_blog str_of (Some st) pa (Given l) = Inr rs \<and> int (length rs) \<le> max 0 l)
   \<and> (\<exists>rs. list_blog str_of (Some st) pa Omitted = Inr rs \<and> length rs \<le> 50)
   \<and> (\<exists>rs. list_guestbook str_of (Some st) (Given l) = Inr rs \<and> int (length rs) \<le> max 0 l)
   \<and> (\<exists>rs. list_guestbook str_of (Some st) Omitted = Inr rs \<and> length rs \<le> 100)
   \<and> (\<exists>rs. list_bucket str_of (Some st) (Given l) = Inr rs \<and> int (length rs) \<le> max 0 l)
   \<and> (\<exists>rs. list_bucket str_of (Some st) Omitted = Inr rs \<and> length rs \<le> 100)
   \<and> (\<exists>rs. list_uses str_of (Some st) (Given l) = Inr rs \<and> int (length rs) \<le> max 0 l)
   \<and> (\<exists>rs. list_uses str_of (Some st) Omitted = Inr rs \<and> length rs \<le> 200)
   \<and> list_projects str_of None fa la = Inl StorageUnavailable
   \<and> list_testimonials str_of None la = Inl StorageUnavailable
   \<and> list_blog str_of None pa la = Inl StorageUnavailable
   \<and> list_guestbook str_of None la = Inl StorageUnavailable
   \<and> list_bucket str_of None la = Inl StorageUnavailable
   \<and> list_uses str_of None la = Inl StorageUnavailable"
proof -
  have p: "\<exists>rs. list_projects str_of (Some st) fa x = Inr rs \<and> length rs \<le> nat (arg_or 50 x)" for x
    by (simp add: list_projects_def get_documents_Some serialize_all_Inr)
  have t: "\<exists>rs. list_testimonials str_of (Some st) x = Inr rs \<and> length rs \<le> nat (arg_or 50 x)" for x
    by (simp add: list_testimonials_def get_documents_Some serialize_all_Inr)
  have b: "\<exists>rs. list_blog str_of (Some st) pa x = Inr rs \<and> length rs \<le> nat (arg_or 50 x)" for x
    by (simp add: list_blog_def get_documents_Some serialize_all_Inr)
  have g: "\<exists>rs. list_guestbook str_of (Some st) x = Inr rs \<and> length rs \<le> nat (arg_or 100 x)" for x
    by (simp add: list_guestbook_def get_documents_Some serialize_all_Inr)
  have k: "\<exists>rs. list_bucket str_of (Some st) x = Inr rs \<and> length rs \<le> nat (arg_or 100 x)" for x
    by (simp add: list_bucket_def get_documents_Some serialize_all_Inr)
  have us: "\<exists>rs. list_uses str_of (Some st) x = Inr rs \<and> length rs \<le> nat (arg_or 200 x)" for x
    by (simp add: list_uses_def get_documents_Some serialize_all_Inr)
  have given: "length rs \<le> nat (arg_or d (Given l)) \<Longrightarrow> int (length rs) \<le> max 0 l" for rs :: "doc option list" and d
    by (simp add: arg_or_def)
  have omitted: "nat (arg_or d Omitted) = nat d" for d :: int
    by (simp add: arg_or_def)
  have n: "list_projects str_of None fa la = Inl StorageUnavailable"
    "list_testimonials str_of None la = Inl StorageUnavailable"
    "list_blog str_of None pa la = Inl StorageUnavailable"
    "list_guestbook str_of None la = Inl StorageUnavailable"
    "list_bucket str_of None la = Inl StorageUnavailable"
    "list_uses str_of None la = Inl StorageUnavailable"
    by (simp_all add: list_projects_def list_testimonials_def list_blog_def list_guestbook_def
        list_bucket_def list_uses_def get_documents_None serialize_all_Inl)
  have p1: "\<exists>rs. list_projects str_of (Some st) fa (Given l) = Inr rs \<and> int (length rs) \<le> max 0 l"
    using p [of "Given l"] given by blast
  have p2: "\<exists>rs. list_projects str_of (Some st) fa Omitted = Inr rs \<and> length rs \<le> 50"
    using p [of Omitted] by (simp add: omitted)
  have t1: "\<exists>rs. list_testimonials str_of (Some st) (Given l) = Inr rs \<and> int (length rs) \<le> max 0 l"
    using t [of "Given l"] given by blast
  have t2: "\<exists>rs. list_testimonials str_of (Some st) Omitted = Inr rs \<and> length rs \<le> 50"
    using t [of Omitted] by (simp add: omitted)
  have b1: "\<exists>rs. list_blog str_of (Some st) pa (Given l) = Inr rs \<and> int (length rs) \<le> max 0 l"
    using b [of "Given l"] given by blast
  have b2: "\<exists>rs. list_blog str_of (Some st) pa Omitted = Inr rs \<and> length rs \<le> 50"
    using b [of Omitted] by (simp add: omitted)
  have g1: "\<exists>rs. list_guestbook str_of (Some st) (Given l) = Inr rs \<and> int (length rs) \<le> max 0 l"
    using g [of "Given l"] given by blast
  have g2: "\<exists>rs. list_guestbook str_of (Some st) Omitted = Inr rs \<and> length rs \<le> 100"
    using g [of Omitted] by (simp add: omitted)
  have k1: "\<exists>rs. list_bucket str_of (Some st) (Given l) = Inr rs \<and> int (length rs) \<le> max 0 l"
    using k [of "Given l"] given by blast
  have k2: "\<exists>rs. list_bucket str_of (Some st) Omitted = Inr rs \<and> length rs \<le> 100"
    using k [of Omitted] by (simp add: omitted)
  have u1: "\<exists>rs. list_uses str_of (Some st) (Given l) = Inr rs \<and> int (length rs) \<le> max 0 l"
    using us [of "Given l"] given by blast
  have u2: "\<exists>rs. list_uses str_of (Some st) Omitted = Inr rs \<and> length rs \<le> 200"
    using us [of Omitted] by (simp add: omitted)
  from p1 p2 t1 t2 b1 b2 g1 g2 k1 k2 u1 u2 n show ?thesis by blast
qed

section \<open>Properties of the blog routes\<close>

lemma matches_single: "matches [(k, v)] d = (map_of d k = Some v)"
  by (simp add: matches_def)

lemma serialized_field:
  assumes "map_of d k = Some v" and "k \<noteq> ''_id''" and "k \<noteq> ''id''"
  shows "\<exists>r. serialize_doc str_of (Some d) = Some r \<and> map_of r k = Some v"
  using serialize_doc_keeps [OF assms(2,3), of str_of d] assms(1) by auto

lemma list_blog_query:
  "list_blog str_of db (Given (Some b)) la =
     serialize_all str_of (get_documents db ''blogpost'' [(''published'', PBool b)] (arg_or 50 la))"
  by (simp add: list_blog_def arg_or_def)

lemma list_blog_default:
  "list_blog str_of db Omitted la = list_blog str_of db (Given (Some True)) la"
  by (simp add: list_blog_def arg_or_def)

lemma list_blog_selected:
  "list_blog str_of (Some st) (Given (Some b)) la =
     Inr (map (\<lambda>i. serialize_doc str_of (Some i))
            (take (nat (arg_or 50 la))
               (filter (\<lambda>d. map_of d ''published'' = Some (PBool b)) (coll_docs st ''blogpost''))))"
proof -
  have "matches [(''published'', PBool b)] = (\<lambda>d. map_of d ''published'' = Some (PBool b))"
    by (rule ext) (rule matches_single)
  then show ?thesis
    by (simp add: list_blog_query get_documents_Some serialize_all_Inr)
qed

lemma list_blog_only_matching:
  assumes "list_blog str_of (Some st) (Given (Some b)) la = Inr rs" and "r \<in> set rs"
  shows "\<exists>d. r = Some d \<and> map_of d ''published'' = Some (PBool b)"
proof -
  let ?sel = "take (nat (arg_or 50 la))
     (filter (\<lambda>d. map_of d ''published'' = Some (PBool b)) (coll_docs st ''blogpost''))"
  from assms(1) have "rs = map (\<lambda>i. serialize_doc str_of (Some i)) ?sel"
    by (simp add: list_blog_selected)
  with assms(2) obtain i where i: "i \<in> set ?sel" and r: "r = serialize_doc str_of (Some i)"
    by auto
  from i have "i \<in> set (filter (\<lambda>d. map_of d ''published'' = Some (PBool b)) (coll_docs st ''blogpost''))"
    by (rule in_set_takeD)
  then have "map_of i ''published'' = Some (PBool b)" by simp
  then obtain d where "serialize_doc str_of (Some i) = Some d" "map_of d ''published'' = Some (PBool b)"
    using serialized_field [of i "''published''" "PBool b" str_of] by auto
  with r show ?thesis by simp
qed

text \<open>
  Claim C4. A blog list request without a \<^verbatim>\<open>published\<close> parameter queries the store with
  the filter \<^verbatim>\<open>published = True\<close>, and a request with an explicit value queries with that
  value instead (\<^verbatim>\<open>False\<close> included); on a reachable store the route returns, and every
  document it returns carries that value of \<^verbatim>\<open>published\<close>.
\<close>

theorem list_blog_published_filter:
  "list_blog str_of db Omitted la =
     serialize_all str_of (get_documents db ''blogpost'' [(''published'', PBool True)] (arg_or 50 la))
   \<and> list_blog str_of db (Given (Some b)) la =
     serialize_all str_of (get_documents db ''blogpost'' [(''published'', PBool b)] (arg_or 50 la))
   \<and> (\<exists>rs. list_blog str_of (Some st) Omitted la = Inr rs
          \<and> (\<forall>r\<in>set rs. \<exists>d. r = Some d \<and> map_of d ''published'' = Some (PBool True)))
   \<and> (\<exists>rs. list_blog str_of (Some st) (Given (Some b)) la = Inr rs
          \<and> (\<forall>r\<in>set rs. \<exists>d. r = Some d \<and> map_of d ''published'' = Some (PBool b)))"
proof -
  have q: "list_blog str_of db (Given (Some c)) la =
     serialize_all str_of (get_documents db ''blogpost'' [(''published'', PBool c)] (arg_or 50 la))" for c
    by (rule list_blog_query)
  have dflt: "list_blog str_of db' Omitted la = list_blog str_of db' (Given (Some True)) la" for db'
    by (rule list_blog_default)
  have ex: "\<exists>rs. list_blog str_of (Some st) (Given (Some c)) la = Inr rs
          \<and> (\<forall>r\<in>set rs. \<exists>d. r = Some d \<and> map_of d ''published'' = Some (PBool c))" for c
  proof -
    obtain rs where rs: "list_blog str_of (Some st) (Given (Some c)) la = Inr rs"
      by (simp add: list_blog_selected)
    then have "\<forall>r\<in>set rs. \<exists>d. r = Some d \<and> map_of d ''published'' = Some (PBool c)"
      using list_blog_only_matching by blast
    with rs show ?thesis by blast
  qed
  show ?thesis
    using q [of b] q [of True] dflt [of db] dflt [of "Some st"] ex [of b] ex [of True] by simp
qed

theorem list_blog_published_filter_witness:
  "list_blog str_id
      (Some \<lparr>colls = [(''blogpost'',
                [[(''_id'', PObjectId ''7''), (''slug'', PStr ''a''), (''published'', PBool True)],
                 [(''_id'', PObjectId ''8''), (''slug'', PStr ''b''), (''published'', PBool False)]])],
             next_id = 9\<rparr>) Omitted Omitted
     = Inr [Some [(''slug'', PStr ''a''), (''published'', PBool True), (''id'', PStr ''7'')]]
   \<and> list_blog str_id
      (Some \<lparr>colls = [(''blogpost'',
                [[(''_id'', PObjectId ''7''), (''slug'', PStr ''a''), (''published'', PBool True)],
                 [(''_id'', PObjectId ''8''), (''slug'', PStr ''b''), (''published'', PBool False)]])],
             next_id = 9\<rparr>) (Given (Some False)) Omitted
     = Inr [Some [(''slug'', PStr ''b''), (''published'', PBool False), (''id'', PStr ''8'')]]"
proof -
  let ?st = "\<lparr>colls = [(''blogpost'',
                [[(''_id'', PObjectId ''7''), (''slug'', PStr ''a''), (''published'', PBool True)],
                 [(''_id'', PObjectId ''8''), (''slug'', PStr ''b''), (''published'', PBool False)]])],
             next_id = 9\<rparr>"
  note T = list_blog_published_filter
    [where str_of = "str_id" and db = "Some ?st" and la = Omitted and b = False]
  have e: "serialize_all str_id (get_documents (Some ?st) ''blogpost'' [(''published'', PBool c)] (arg_or 50 Omitted))
      = Inr (map (\<lambda>i. serialize_doc str_id (Some i))
          (filter (\<lambda>d. map_of d ''published'' = Some (PBool c))
             [[(''_id'', PObjectId ''7''), (''slug'', PStr ''a''), (''published'', PBool True)],
              [(''_id'', PObjectId ''8''), (''slug'', PStr ''b''), (''published'', PBool False)]]))" for c
    by (simp add: serialize_all_def get_documents_def coll_docs_def arg_or_def matches_def)
  have s1: "serialize_doc str_id (Some [(''_id'', PObjectId ''7''), (''slug'', PStr ''a''), (''published'', PBool True)])
      = Some [(''slug'', PStr ''a''), (''published'', PBool True), (''id'', PStr ''7'')]"
    by (simp add: serialize_doc_def AList.delete_eq str_id_def)
  have s2: "serialize_doc str_id (Some [(''_id'', PObjectId ''8''), (''slug'', PStr ''b''), (''published'', PBool False)])
      = Some [(''slug'', PStr ''b''), (''published'', PBool False), (''id'', PStr ''8'')]"
    by (simp add: serialize_doc_def AList.delete_eq str_id_def)
  from T [THEN conjunct1] have "list_blog str_id (Some ?st) Omitted Omitted
     = Inr [Some [(''slug'', PStr ''a''), (''published'', PBool True), (''id'', PStr ''7'')]]"
    by (simp add: e s1)
  moreover from T [THEN conjunct2, THEN conjunct1]
  have "list_blog str_id (Some ?st) (Given (Some False)) Omitted
     = Inr [Some [(''slug'', PStr ''b''), (''published'', PBool False), (''id'', PStr ''8'')]]"
    by (simp add: e s2)
  ultimately show ?thesis by simp
qed

lemma get_blog_selected:
  "get_blog str_of (Some st) slug =
     (case filter (\<lambda>d. map_of d ''slug'' = Some (PStr slug)) (coll_docs st ''blogpost'') of
        [] \<Rightarrow> Inl (HTTPException 404 ''Post not found'')
      | i # _ \<Rightarrow> Inr (serialize_doc str_of (Some i)))"
proof -
  have m: "matches [(''slug'', PStr slug)] = (\<lambda>d. map_of d ''slug'' = Some (PStr slug))"
    by (rule ext) (rule matches_single)
  show ?thesis
    by (cases "filter (\<lambda>d. map_of d ''slug'' = Some (PStr slug)) (coll_docs st ''blogpost'')")
       (simp_all add: get_blog_def get_documents_Some m)
qed

text \<open>
  Claim C8. The fetch by slug returns the serialized form of the first stored blog post
  whose \<^verbatim>\<open>slug\<close> equals the requested one, when there is one, and that document still
  carries the slug; when no stored post has the slug it fails with \<^verbatim>\<open>HTTPException\<close> 404
  and returns no document.
\<close>

theorem get_blog_match_or_not_found:
  "(filter (\<lambda>d. map_of d ''slug'' = Some (PStr slug)) (coll_docs st ''blogpost'') = [] \<longrightarrow>
      get_blog str_of (Some st) slug = Inl (HTTPException 404 ''Post not found''))
   \<and> (filter (\<lambda>d. map_of d ''slug'' = Some (PStr slug)) (coll_docs st ''blogpost'') = d # ds \<longrightarrow>
      get_blog str_of (Some st) slug = Inr (serialize_doc str_of (Some d))
      \<and> d \<in> set (coll_docs st ''blogpost'')
      \<and> (\<exists>r. serialize_doc str_of (Some d) = Some r \<and> map_of r ''slug'' = Some (PStr slug)))"
proof -
  let ?fs = "filter (\<lambda>d. map_of d ''slug'' = Some (PStr slug)) (coll_docs st ''blogpost'')"
  have none: "?fs = [] \<longrightarrow> get_blog str_of (Some st) slug = Inl (HTTPException 404 ''Post not found'')"
    by (simp add: get_blog_selected)
  have some: "?fs = d # ds \<longrightarrow>
      get_blog str_of (Some st) slug = Inr (serialize_doc str_of (Some d))
      \<and> d \<in> set (coll_docs st ''blogpost'')
      \<and> (\<exists>r. serialize_doc str_of (Some d) = Some r \<and> map_of r ''slug'' = Some (PStr slug))"
  proof
    assume h: "?fs = d # ds"
    then have "d \<in> set ?fs" by simp
    then have mem: "d \<in> set (coll_docs st ''blogpost'')" and sl: "map_of d ''slug'' = Some (PStr slug)"
      by simp_all
    from h have g: "get_blog str_of (Some st) slug = Inr (serialize_doc str_of (Some d))"
      by (simp add: get_blog_selected)
    from sl have "\<exists>r. serialize_doc str_of (Some d) = Some r \<and> map_of r ''slug'' = Some (PStr slug)"
      by (rule serialized_field) simp_all
    with g mem show "get_blog str_of (Some st) slug = Inr (serialize_doc str_of (Some d))
      \<and> d \<in> set (coll_docs st ''blogpost'')
      \<and> (\<exists>r. serialize_doc str_of (Some d) = Some r \<and> map_of r ''slug'' = Some (PStr slug))"
      by blast
  qed
  from none some show ?thesis by blast
qed

theorem get_blog_match_or_not_found_witness:
  "get_blog str_id
      (Some \<lparr>colls = [(''blogpost'',
                [[(''_id'', PObjectId ''7''), (''slug'', PStr ''a'')],
                 [(''_id'', PObjectId ''8''), (''slug'', PStr ''b'')]])],
             next_id = 9\<rparr>) ''b''
     = Inr (Some [(''slug'', PStr ''b''), (''id'', PStr ''8'')])
   \<and> get_blog str_id
      (Some \<lparr>colls = [(''blogpost'',
                [[(''_id'', PObjectId ''7''), (''slug'', PStr ''a'')],
                 [(''_id'', PObjectId ''8''), (''slug'', PStr ''b'')]])],
             next_id = 9\<rparr>) ''c''
     = Inl (HTTPException 404 ''Post not found'')"
proof -
  let ?st = "\<lparr>colls = [(''blogpost'',
                [[(''_id'', PObjectId ''7''), (''slug'', PStr ''a'')],
                 [(''_id'', PObjectId ''8''), (''slug'', PStr ''b'')]])],
             next_id = 9\<rparr>"
  have f1: "filter (\<lambda>d. map_of d ''slug'' = Some (PStr ''b'')) (coll_docs ?st ''blogpost'')
      = [(''_id'', PObjectId ''8''), (''slug'', PStr ''b'')] # []"
    by (simp add: coll_docs_def)
  have f2: "filter (\<lambda>d. map_of d ''slug'' = Some (PStr ''c'')) (coll_docs ?st ''blogpost'') = []"
    by (simp add: coll_docs_def)
  have s: "serialize_doc str_id (Some [(''_id'', PObjectId ''8''), (''slug'', PStr ''b'')])
      = Some [(''slug'', PStr ''b''), (''id'', PStr ''8'')]"
    by (simp add: serialize_doc_def AList.delete_eq str_id_def)
  from get_blog_match_or_not_found
         [where str_of = "str_id" and st = ?st and slug = "''b''"
            and d = "[(''_id'', PObjectId ''8''), (''slug'', PStr ''b'')]" and ds = "[]",
          THEN conjunct2] f1
  have "get_blog str_id (Some ?st) ''b''
          = Inr (serialize_doc str_id (Some [(''_id'', PObjectId ''8''), (''slug'', PStr ''b'')]))"
    by blast
  then have a: "get_blog str_id (Some ?st) ''b'' = Inr (Some [(''slug'', PStr ''b''), (''id'', PStr ''8'')])"
    by (simp only: s)
  from get_blog_match_or_not_found
         [where str_of = "str_id" and st = ?st and slug = "''c''", THEN conjunct1] f2
  have b: "get_blog str_id (Some ?st) ''c'' = Inl (HTTPException 404 ''Post not found'')"
    by blast
  from a b show ?thesis by blast
qed

section \<open>Properties of the contact route\<close>

lemma email_str_invalid:
  assumes "map_of body ''email'' = Some (PStr s)" and "email_check s = None"
  shows "email_str email_check body ''email'' = Inl [FieldError ''email'' ''value_error'']"
  using assms by (simp add: email_str_def required_str_def)

lemma email_str_Inr:
  assumes "email_str email_check body ''email'' = Inr a"
  shows "\<exists>s. map_of body ''email'' = Some (PStr s) \<and> email_check s = Some a"
  using assms
  by (auto simp: email_str_def required_str_def split: option.splits pyval.splits sum.splits)

lemma errors_of_Nil: "errors_of r = [] \<Longrightarrow> r = Inl [] \<or> (\<exists>v. r = Inr v)"
  by (cases r) (simp_all add: errors_of_def)

lemma validate_invalid_email:
  assumes "map_of body ''email'' = Some (PStr s)" and "email_check s = None"
  shows "\<exists>errs. validate_ContactMessage email_check (PDict body) = Inl (ValidationError errs)
           \<and> FieldError ''email'' ''value_error'' \<in> set errs"
proof -
  have e: "errors_of (email_str email_check body ''email'') = [FieldError ''email'' ''value_error'']"
    using email_str_invalid [of body s email_check] assms by (simp add: errors_of_def)
  let ?errs = "errors_of (required_str body ''name'') @ errors_of (email_str email_check body ''email'')
      @ errors_of (required_str body ''message'') @ errors_of (optional_str body ''subject'')
      @ errors_of (optional_str body ''source'')"
  have ne: "?errs \<noteq> []" using e by simp
  have "validate_ContactMessage email_check (PDict body) = Inl (ValidationError ?errs)"
    using ne by (simp add: validate_ContactMessage_def Let_def)
  moreover have "FieldError ''email'' ''value_error'' \<in> set ?errs" using e by simp
  ultimately show ?thesis by blast
qed

lemma validate_Inr_email:
  assumes "validate_ContactMessage email_check payload = Inr m"
  shows "\<exists>body s. payload = PDict body \<and> map_of body ''email'' = Some (PStr s)
           \<and> email_check s = Some (cm_email m)"
proof -
  from assms obtain body where p: "payload = PDict body"
    by (cases payload) (simp_all add: validate_ContactMessage_def)
  let ?e = "email_str email_check body ''email''"
  from assms p have ee: "errors_of ?e = []" and m: "cm_email m = value_of [] ?e"
    by (auto simp: validate_ContactMessage_def Let_def split: if_splits)
  have "\<exists>a. ?e = Inr a"
  proof (cases ?e)
    case (Inl errs)
    then have "errs \<noteq> []"
      by (auto simp: email_str_def required_str_def split: option.splits pyval.splits sum.splits)
    with Inl ee show ?thesis by (simp add: errors_of_def)
  next
    case (Inr a)
    then show ?thesis by blast
  qed
  then obtain a where a: "?e = Inr a" by blast
  with m have "cm_email m = a" by (simp add: value_of_def)
  with a email_str_Inr [of email_check body a] p show ?thesis by auto
qed

lemma coll_docs_after_update:
  "coll_docs (st\<lparr>colls := AList.update c ds (colls st), next_id := n\<rparr>) c = ds"
  by (simp add: coll_docs_def AList.update_conv')

lemma contact_reachable:
  "\<exists>st'. contact (Some st) m =
      (Some st', Inr [(''id'', PStr (str_nat (next_id st))), (''status'', PStr ''received'')])
     \<and> coll_docs st' ''contactmessage'' =
         coll_docs st ''contactmessage'' @ [(''_id'', PObjectId (str_nat (next_id st))) # contact_dump m]
     \<and> next_id st' = Suc (next_id st)"
  by (simp add: contact_def create_document_def Let_def coll_docs_after_update)

text \<open>
  Claim C7. A contact payload whose \<^verbatim>\<open>email\<close> is not a syntactically valid address fails
  validation with an error located at the field \<^verbatim>\<open>email\<close>, and every validation failure
  leaves the store as it was. A payload passes validation only with a valid address, and
  then, on a reachable store, one document is appended to the collection
  \<^verbatim>\<open>contactmessage\<close> and the response is the new identifier together with the status
  \<^verbatim>\<open>received\<close>.
\<close>

theorem contact_validation_gate:
  "(map_of body ''email'' = Some (PStr s) \<and> email_check s = None \<longrightarrow>
      (\<exists>errs. contact_route email_check db (PDict body) = (db, Inl (ValidationError errs))
             \<and> FieldError ''email'' ''value_error'' \<in> set errs))
   \<and> (validate_ContactMessage email_check payload = Inl e \<longrightarrow>
        contact_route email_check db payload = (db, Inl e))
   \<and> (validate_ContactMessage email_check payload = Inr m \<longrightarrow>
        (\<exists>bd a. payload = PDict bd \<and> map_of bd ''email'' = Some (PStr a)
             \<and> email_check a = Some (cm_email m))
        \<and> (\<exists>st'. contact_route email_check (Some st) payload =
               (Some st', Inr [(''id'', PStr (str_nat (next_id st))), (''status'', PStr ''received'')])
             \<and> coll_docs st' ''contactmessage'' =
                 coll_docs st ''contactmessage''
                   @ [(''_id'', PObjectId (str_nat (next_id st))) # contact_dump m]))"
proof -
  have a: "map_of body ''email'' = Some (PStr s) \<and> email_check s = None \<longrightarrow>
      (\<exists>errs. contact_route email_check db (PDict body) = (db, Inl (ValidationError errs))
             \<and> FieldError ''email'' ''value_error'' \<in> set errs)"
  proof
    assume h: "map_of body ''email'' = Some (PStr s) \<and> email_check s = None"
    then obtain errs where v: "validate_ContactMessage email_check (PDict body) = Inl (ValidationError errs)"
      and mem: "FieldError ''email'' ''value_error'' \<in> set errs"
      using validate_invalid_email [of body s email_check] by blast
    from v have "contact_route email_check db (PDict body) = (db, Inl (ValidationError errs))"
      by (simp add: contact_route_def)
    with mem show "\<exists>errs. contact_route email_check db (PDict body) = (db, Inl (ValidationError errs))
             \<and> FieldError ''email'' ''value_error'' \<in> set errs" by blast
  qed
  have b: "validate_ContactMessage email_check payload = Inl e \<longrightarrow>
        contact_route email_check db payload = (db, Inl e)"
    by (simp add: contact_route_def)
  have c: "validate_ContactMessage email_check payload = Inr m \<longrightarrow>
        (\<exists>bd a. payload = PDict bd \<and> map_of bd ''email'' = Some (PStr a)
             \<and> email_check a = Some (cm_email m))
        \<and> (\<exists>st'. contact_route email_check (Some st) payload =
               (Some st', Inr [(''id'', PStr (str_nat (next_id st))), (''status'', PStr ''received'')])
             \<and> coll_docs st' ''contactmessage'' =
                 coll_docs st ''contactmessage''
                   @ [(''_id'', PObjectId (str_nat (next_id st))) # contact_dump m])"
  proof
    assume h: "validate_ContactMessage email_check payload = Inr m"
    then have r: "contact_route email_check (Some st) payload = contact (Some st) m"
      by (simp add: contact_route_def)
    from contact_reachable [of st m] r validate_Inr_email [OF h]
    show "(\<exists>bd a. payload = PDict bd \<and> map_of bd ''email'' = Some (PStr a)
             \<and> email_check a = Some (cm_email m))
        \<and> (\<exists>st'. contact_route email_check (Some st) payload =
               (Some st', Inr [(''id'', PStr (str_nat (next_id st))), (''status'', PStr ''received'')])
             \<and> coll_docs st' ''contactmessage'' =
                 coll_docs st ''contactmessage''
                   @ [(''_id'', PObjectId (str_nat (next_id st))) # contact_dump m])"
      by auto
  qed
  from a b c show ?thesis by blast
qed

theorem contact_validation_gate_witness:
  "(\<exists>errs. contact_route (\<lambda>s. if CHR ''@'' \<in> set s then Some s else None)
              (Some \<lparr>colls = [], next_id = 0\<rparr>)
              (PDict [(''name'', PStr ''Ann''), (''email'', PStr ''ann''), (''message'', PStr ''hi'')])
            = (Some \<lparr>colls = [], next_id = 0\<rparr>, Inl (ValidationError errs))
          \<and> FieldError ''email'' ''value_error'' \<in> set errs)
   \<and> (\<exists>st'. contact_route (\<lambda>s. if CHR ''@'' \<in> set s then Some s else None)
              (Some \<lparr>colls = [], next_id = 0\<rparr>)
              (PDict [(''name'', PStr ''Ann''), (''email'', PStr ''a@b.c''), (''message'', PStr ''hi'')])
            = (Some st', Inr [(''id'', PStr ''0''), (''status'', PStr ''received'')])
          \<and> coll_docs st' ''contactmessage'' =
              [[(''_id'', PObjectId ''0''), (''name'', PStr ''Ann''), (''email'', PStr ''a@b.c''),
                (''message'', PStr ''hi''), (''subject'', PNone), (''source'', PNone)]])"
proof -
  let ?chk = "\<lambda>s. if CHR ''@'' \<in> set s then Some s else None"
  let ?st = "\<lparr>colls = [], next_id = 0\<rparr>"
  let ?bad = "[(''name'', PStr ''Ann''), (''email'', PStr ''ann''), (''message'', PStr ''hi'')]"
  let ?good = "PDict [(''name'', PStr ''Ann''), (''email'', PStr ''a@b.c''), (''message'', PStr ''hi'')]"
  let ?m = "\<lparr>cm_name = ''Ann'', cm_email = ''a@b.c'', cm_message = ''hi'',
             cm_subject = None, cm_source = None\<rparr>"
  have a: "\<exists>errs. contact_route ?chk (Some ?st) (PDict ?bad) = (Some ?st, Inl (ValidationError errs))
          \<and> FieldError ''email'' ''value_error'' \<in> set errs"
    using contact_validation_gate
      [where email_check = ?chk and body = ?bad and s = "''ann''" and db = "Some ?st", THEN conjunct1]
    by simp
  have v: "validate_ContactMessage ?chk ?good = Inr ?m"
    by (simp add: validate_ContactMessage_def required_str_def optional_str_def email_str_def
        errors_of_def value_of_def Let_def)
  have "\<exists>st'. contact_route ?chk (Some ?st) ?good =
               (Some st', Inr [(''id'', PStr (str_nat (next_id ?st))), (''status'', PStr ''received'')])
             \<and> coll_docs st' ''contactmessage'' =
                 coll_docs ?st ''contactmessage''
                   @ [(''_id'', PObjectId (str_nat (next_id ?st))) # contact_dump ?m]"
    using contact_validation_gate
      [where email_check = ?chk and payload = ?good and m = ?m and st = ?st,
       THEN conjunct2, THEN conjunct2] v
    by blast
  then have b: "\<exists>st'. contact_route ?chk (Some ?st) ?good =
               (Some st', Inr [(''id'', PStr ''0''), (''status'', PStr ''received'')])
             \<and> coll_docs st' ''contactmessage'' =
              [[(''_id'', PObjectId ''0''), (''name'', PStr ''Ann''), (''email'', PStr ''a@b.c''),
                (''message'', PStr ''hi''), (''subject'', PNone), (''source'', PNone)]]"
    by (simp add: str_nat.simps coll_docs_def contact_dump_def opt_val_def)
  from a b show ?thesis by (rule conjI)
qed

section \<open>Properties of the diagnostic route\<close>

text \<open>
  Claim C9. The diagnostic route always returns a response, whatever the database handle
  is: absent, raising on \<^verbatim>\<open>list_collection_names\<close>, or working. A failure is rendered in
  the \<^verbatim>\<open>database\<close> text of the response, with at most 80 characters of the error, and the
  response lists at most 10 collection names.
\<close>

theorem test_database_never_raises:
  "\<exists>r. test_database getenv db = Inr r
       \<and> length (collections r) \<le> 10
       \<and> backend r = mark_ok @ u '' Running''
       \<and> (db = None \<longrightarrow> database r = mark_no @ u '' Not Available''
             \<and> connection_status r = u ''Not Connected'' \<and> collections r = [])
       \<and> (\<forall>e. db = Some (Inl e) \<longrightarrow>
             database r = mark_warn @ u '' Connected but error: '' @ take 80 e
             \<and> connection_status r = u ''Not Connected'' \<and> collections r = [])
       \<and> (\<forall>names. db = Some (Inr names) \<longrightarrow>
             database r = mark_ok @ u '' Connected & Working''
             \<and> connection_status r = u ''Connected'' \<and> collections r = take 10 names)"
proof (cases db)
  case None
  then show ?thesis by (simp add: test_database_def Let_def)
next
  case (Some call)
  show ?thesis
  proof (cases call)
    case (Inl e)
    with Some show ?thesis by (simp add: test_database_def Let_def)
  next
    case (Inr names)
    with Some show ?thesis by (simp add: test_database_def Let_def)
  qed
qed

theorem test_database_never_raises_witness:
  "(\<exists>r. test_database (\<lambda>k. None) (Some (Inl (u ''no route''))) = Inr r
       \<and> database r = mark_warn @ u '' Connected but error: no route''
       \<and> collections r = [])
   \<and> (\<exists>r. test_database (\<lambda>k. None) (Some (Inr (replicate 12 (u ''c'')))) = Inr r
       \<and> collections r = replicate 10 (u ''c''))"
proof -
  have a: "\<exists>r. test_database (\<lambda>k. None) (Some (Inl (u ''no route''))) = Inr r
       \<and> database r = mark_warn @ u '' Connected but error: no route''
       \<and> collections r = []"
    using test_database_never_raises [of "\<lambda>k. None" "Some (Inl (u ''no route''))"]
    by (auto simp: u_def)
  have b: "\<exists>r. test_database (\<lambda>k. None) (Some (Inr (replicate 12 (u ''c'')))) = Inr r
       \<and> collections r = replicate 10 (u ''c'')"
    using test_database_never_raises [of "\<lambda>k. None" "Some (Inr (replicate 12 (u ''c'')))"]
    by auto
  from a b show ?thesis by (rule conjI)
qed

section \<open>Properties of the user statistics\<close>

lemma star_count_counted:
  "repo_counted r \<Longrightarrow> star_count int_of_str r = Inr (spec_star_count r)"
  by (auto simp: repo_counted_def star_count_def spec_star_count_def dict_get_def py_int_def
           split: pyval.splits option.splits)

lemma add_stars_counted:
  "list_all repo_counted rs \<Longrightarrow>
     add_stars int_of_str acc rs = Inr (acc + sum_list (map spec_star_count rs))"
proof (induction rs arbitrary: acc)
  case Nil
  then show ?case by simp
next
  case (Cons r rs)
  then have "star_count int_of_str r = Inr (spec_star_count r)" and "list_all repo_counted rs"
    by (simp_all add: star_count_counted)
  with Cons.IH [of "acc + spec_star_count r"] show ?case by (simp add: add.assoc)
qed

lemma sum_stars_counted:
  assumes "resp_json repos_resp = Some (PList rs)" and "list_all repo_counted rs"
  shows "sum_stars int_of_str repos_resp = Inr (sum_list (map spec_star_count rs))"
  using assms add_stars_counted [of rs int_of_str 0]
  by (simp add: sum_stars_def py_iter_def)

lemma github_stats_profile_failure:
  assumes "requests_get (profile_request getenv user) = Inr user_resp"
    and "status_code user_resp \<noteq> 200"
  shows "github_stats int_of_str getenv requests_get user =
           ([profile_request getenv user],
            Inl (HTTPException (status_code user_resp) (resp_text user_resp)))"
  using assms by (simp add: github_stats_def Let_def)

lemma github_stats_with_stars:
  assumes "requests_get (profile_request getenv user) = Inr user_resp"
    and "status_code user_resp = 200"
    and "resp_json user_resp = Some (PDict data)"
    and "requests_get (starred_request getenv user) = Inr repos_resp"
    and "(if status_code repos_resp = 200 then sum_stars int_of_str repos_resp else Inr 0) = Inr stars"
  shows "github_stats int_of_str getenv requests_get user =
           ([profile_request getenv user, starred_request getenv user],
            Inr [(''followers'', dict_get data ''followers'' (PInt 0)),
                 (''public_repos'', dict_get data ''public_repos'' (PInt 0)),
                 (''stars'', PInt stars)])"
  using assms by (simp add: github_stats_def Let_def)

lemma github_stats_keys:
  assumes "snd (github_stats int_of_str getenv requests_get user) = Inr result"
  shows "map fst result = [''followers'', ''public_repos'', ''stars'']"
  using assms
  by (auto simp: github_stats_def Let_def
           split: sum.splits if_splits option.splits pyval.splits)

text \<open>
  The repository fetch can also fail by raising (a timeout, a network failure). Nothing
  catches that exception: with a profile at 200 and a repository fetch that raises, the
  user statistics fail with the exception instead of returning \<^verbatim>\<open>stars\<close> 0.
\<close>

theorem github_stats_secondary_raises_counterexample:
  "github_stats (\<lambda>s. None) (\<lambda>k. None)
      (\<lambda>req. if url req = ''https://api.github.com/users/bob''
              then Inr \<lparr>status_code = 200, resp_text = [],
                        resp_json = Some (PDict [(''followers'', PInt 3)])\<rparr>
              else Inl RequestException) ''bob''
     = ([profile_request (\<lambda>k. None) ''bob'', starred_request (\<lambda>k. None) ''bob''],
        Inl RequestException)"
  by (simp add: github_stats_def Let_def profile_request_def starred_request_def GITHUB_API_def)

text \<open>
  Claim C1, as amended. For every user name: when the profile fetch answers with a
  status other than 200, the user statistics fail with an \<^verbatim>\<open>HTTPException\<close> carrying
  exactly that status and body, and the profile request is the only request made (no
  repository fetch, no aggregation). When the profile fetch succeeds and the repository
  fetch answers with a status other than 200, the operation returns normally with
  \<^verbatim>\<open>stars\<close> 0. When the repository fetch raises instead of answering, the exception
  escapes and the operation fails; so does an exception of the profile fetch, after
  that one request.
\<close>

theorem github_stats_asymmetric_failure:
  "(requests_get (profile_request getenv user) = Inr user_resp
      \<and> status_code user_resp \<noteq> 200 \<longrightarrow>
      github_stats int_of_str getenv requests_get user =
        ([profile_request getenv user],
         Inl (HTTPException (status_code user_resp) (resp_text user_resp))))
   \<and> (requests_get (profile_request getenv user) = Inr user_resp
      \<and> status_code user_resp = 200
      \<and> resp_json user_resp = Some (PDict data)
      \<and> requests_get (starred_request getenv user) = Inr repos_resp
      \<and> status_code repos_resp \<noteq> 200 \<longrightarrow>
      github_stats int_of_str getenv requests_get user =
        ([profile_request getenv user, starred_request getenv user],
         Inr [(''followers'', dict_get data ''followers'' (PInt 0)),
              (''public_repos'', dict_get data ''public_repos'' (PInt 0)),
              (''stars'', PInt 0)]))
   \<and> (requests_get (profile_request getenv user) = Inr user_resp
      \<and> status_code user_resp = 200
      \<and> requests_get (starred_request getenv user) = Inl e \<longrightarrow>
      github_stats int_of_str getenv requests_get user =
        ([profile_request getenv user, starred_request getenv user], Inl e))
   \<and> (requests_get (profile_request getenv user) = Inl e \<longrightarrow>
      github_stats int_of_str getenv requests_get user =
        ([profile_request getenv user], Inl e))"
proof -
  have a: "requests_get (profile_request getenv user) = Inr user_resp
      \<and> status_code user_resp \<noteq> 200 \<longrightarrow>
      github_stats int_of_str getenv requests_get user =
        ([profile_request getenv user],
         Inl (HTTPException (status_code user_resp) (resp_text user_resp)))"
    using github_stats_profile_failure by blast
  have b: "requests_get (profile_request getenv user) = Inr user_resp
      \<and> status_code user_resp = 200
      \<and> resp_json user_resp = Some (PDict data)
      \<and> requests_get (starred_request getenv user) = Inr repos_resp
      \<and> status_code repos_resp \<noteq> 200 \<longrightarrow>
      github_stats int_of_str getenv requests_get user =
        ([profile_request getenv user, starred_request getenv user],
         Inr [(''followers'', dict_get data ''followers'' (PInt 0)),
              (''public_repos'', dict_get data ''public_repos'' (PInt 0)),
              (''stars'', PInt 0)])"
  proof
    assume h: "requests_get (profile_request getenv user) = Inr user_resp
      \<and> status_code user_resp = 200
      \<and> resp_json user_resp = Some (PDict data)
      \<and> requests_get (starred_request getenv user) = Inr repos_resp
      \<and> status_code repos_resp \<noteq> 200"
    then have "(if status_code repos_resp = 200 then sum_stars int_of_str repos_resp else Inr 0) = Inr 0"
      by simp
    with h show "github_stats int_of_str getenv requests_get user =
        ([profile_request getenv user, starred_request getenv user],
         Inr [(''followers'', dict_get data ''followers'' (PInt 0)),
              (''public_repos'', dict_get data ''public_repos'' (PInt 0)),
              (''stars'', PInt 0)])"
      using github_stats_with_stars [of requests_get getenv user user_resp data repos_resp int_of_str 0]
      by blast
  qed
  have c: "requests_get (profile_request getenv user) = Inr user_resp
      \<and> status_code user_resp = 200
      \<and> requests_get (starred_request getenv user) = Inl e \<longrightarrow>
      github_stats int_of_str getenv requests_get user =
        ([profile_request getenv user, starred_request getenv user], Inl e)"
    by (simp add: github_stats_def Let_def)
  have d: "requests_get (profile_request getenv user) = Inl e \<longrightarrow>
      github_stats int_of_str getenv requests_get user =
        ([profile_request getenv user], Inl e)"
    by (simp add: github_stats_def Let_def)
  from a b c d show ?thesis by blast
qed

theorem github_stats_asymmetric_failure_witness:
  "github_stats (\<lambda>s. None) (\<lambda>k. None)
      (\<lambda>req. Inr \<lparr>status_code = 404, resp_text = ''Not Found'', resp_json = None\<rparr>) ''bob''
     = ([profile_request (\<lambda>k. None) ''bob''], Inl (HTTPException 404 ''Not Found''))
   \<and> github_stats (\<lambda>s. None) (\<lambda>k. None)
      (\<lambda>req. if url req = ''https://api.github.com/users/bob''
              then Inr \<lparr>status_code = 200, resp_text = [],
                        resp_json = Some (PDict [(''followers'', PInt 3)])\<rparr>
              else Inr \<lparr>status_code = 500, resp_text = ''down'', resp_json = None\<rparr>) ''bob''
     = ([profile_request (\<lambda>k. None) ''bob'', starred_request (\<lambda>k. None) ''bob''],
        Inr [(''followers'', PInt 3), (''public_repos'', PInt 0), (''stars'', PInt 0)])
   \<and> github_stats (\<lambda>s. None) (\<lambda>k. None)
      (\<lambda>req. if url req = ''https://api.github.com/users/bob''
              then Inr \<lparr>status_code = 200, resp_text = [],
                        resp_json = Some (PDict [(''followers'', PInt 3)])\<rparr>
              else Inl RequestException) ''bob''
     = ([profile_request (\<lambda>k. None) ''bob'', starred_request (\<lambda>k. None) ''bob''],
        Inl RequestException)"
proof -
  let ?up1 = "\<lambda>req :: request. (Inr \<lparr>status_code = 404, resp_text = ''Not Found'', resp_json = None\<rparr> :: exn + response)"
  let ?up2 = "\<lambda>req :: request. if url req = ''https://api.github.com/users/bob''
              then (Inr \<lparr>status_code = 200, resp_text = [],
                        resp_json = Some (PDict [(''followers'', PInt 3)])\<rparr> :: exn + response)
              else Inr \<lparr>status_code = 500, resp_text = ''down'', resp_json = None\<rparr>"
  have a: "github_stats (\<lambda>s. None) (\<lambda>k. None) ?up1 ''bob''
     = ([profile_request (\<lambda>k. None) ''bob''], Inl (HTTPException 404 ''Not Found''))"
    using github_stats_asymmetric_failure
      [where requests_get = ?up1 and getenv = "\<lambda>k. None" and user = "''bob''"
         and user_resp = "\<lparr>status_code = 404, resp_text = ''Not Found'', resp_json = None\<rparr>"
         and int_of_str = "\<lambda>s. None", THEN conjunct1]
    by simp
  have p: "?up2 (profile_request (\<lambda>k. None) ''bob'')
      = Inr \<lparr>status_code = 200, resp_text = [], resp_json = Some (PDict [(''followers'', PInt 3)])\<rparr>"
    by (simp add: profile_request_def GITHUB_API_def)
  have s: "?up2 (starred_request (\<lambda>k. None) ''bob'')
      = Inr \<lparr>status_code = 500, resp_text = ''down'', resp_json = None\<rparr>"
    by (simp add: starred_request_def GITHUB_API_def)
  have b: "github_stats (\<lambda>s. None) (\<lambda>k. None) ?up2 ''bob''
     = ([profile_request (\<lambda>k. None) ''bob'', starred_request (\<lambda>k. None) ''bob''],
        Inr [(''followers'', PInt 3), (''public_repos'', PInt 0), (''stars'', PInt 0)])"
    using github_stats_asymmetric_failure
      [where requests_get = ?up2 and getenv = "\<lambda>k. None" and user = "''bob''"
         and user_resp = "\<lparr>status_code = 200, resp_text = [], resp_json = Some (PDict [(''followers'', PInt 3)])\<rparr>"
         and data = "[(''followers'', PInt 3)]"
         and repos_resp = "\<lparr>status_code = 500, resp_text = ''down'', resp_json = None\<rparr>"
         and int_of_str = "\<lambda>s. None", THEN conjunct2, THEN conjunct1] p s
    by (simp add: dict_get_def)
  let ?up3 = "\<lambda>req :: request. if url req = ''https://api.github.com/users/bob''
              then (Inr \<lparr>status_code = 200, resp_text = [],
                        resp_json = Some (PDict [(''followers'', PInt 3)])\<rparr> :: exn + response)
              else Inl RequestException"
  have p3: "?up3 (profile_request (\<lambda>k. None) ''bob'')
      = Inr \<lparr>status_code = 200, resp_text = [], resp_json = Some (PDict [(''followers'', PInt 3)])\<rparr>"
    by (simp add: profile_request_def GITHUB_API_def)
  have s3: "?up3 (starred_request (\<lambda>k. None) ''bob'') = Inl RequestException"
    by (simp add: starred_request_def GITHUB_API_def)
  have c: "github_stats (\<lambda>s. None) (\<lambda>k. None) ?up3 ''bob''
     = ([profile_request (\<lambda>k. None) ''bob'', starred_request (\<lambda>k. None) ''bob''],
        Inl RequestException)"
    using github_stats_asymmetric_failure
      [where requests_get = ?up3 and getenv = "\<lambda>k. None" and user = "''bob''"
         and user_resp = "\<lparr>status_code = 200, resp_text = [], resp_json = Some (PDict [(''followers'', PInt 3)])\<rparr>"
         and e = RequestException
         and int_of_str = "\<lambda>s. None", THEN conjunct2, THEN conjunct2, THEN conjunct1] p3 s3
    by simp
  from a b c show ?thesis by blast
qed

text \<open>
  Claim C2. When both fetches succeed, the user statistics are exactly the object with
  the keys \<^verbatim>\<open>followers\<close>, \<^verbatim>\<open>public_repos\<close> and \<^verbatim>\<open>stars\<close>: the first two read from the
  profile, \<^verbatim>\<open>stars\<close> the sum of the star counts of the repositories in the reply to the
  request for the first page of 100 repositories sorted by update, a missing count
  being zero. Every normal return has exactly these three keys.
\<close>

theorem github_stats_result:
  "(requests_get (profile_request getenv user) = Inr user_resp
      \<and> status_code user_resp = 200
      \<and> resp_json user_resp = Some (PDict data)
      \<and> requests_get (starred_request getenv user) = Inr repos_resp
      \<and> status_code repos_resp = 200
      \<and> resp_json repos_resp = Some (PList rs)
      \<and> list_all repo_counted rs \<longrightarrow>
      github_stats int_of_str getenv requests_get user =
        ([profile_request getenv user, starred_request getenv user],
         Inr [(''followers'', dict_get data ''followers'' (PInt 0)),
              (''public_repos'', dict_get data ''public_repos'' (PInt 0)),
              (''stars'', PInt (sum_list (map spec_star_count rs)))]))
   \<and> url (starred_request getenv user) =
        ''https://api.github.com/users/'' @ user @ ''/repos?per_page=100&sort=updated''
   \<and> url (profile_request getenv user) = ''https://api.github.com/users/'' @ user
   \<and> (snd (github_stats int_of_str getenv requests_get user) = Inr result \<longrightarrow>
        map fst result = [''followers'', ''public_repos'', ''stars''])"
proof -
  have a: "requests_get (profile_request getenv user) = Inr user_resp
      \<and> status_code user_resp = 200
      \<and> resp_json user_resp = Some (PDict data)
      \<and> requests_get (starred_request getenv user) = Inr repos_resp
      \<and> status_code repos_resp = 200
      \<and> resp_json repos_resp = Some (PList rs)
      \<and> list_all repo_counted rs \<longrightarrow>
      github_stats int_of_str getenv requests_get user =
        ([profile_request getenv user, starred_request getenv user],
         Inr [(''followers'', dict_get data ''followers'' (PInt 0)),
              (''public_repos'', dict_get data ''public_repos'' (PInt 0)),
              (''stars'', PInt (sum_list (map spec_star_count rs)))])"
  proof
    assume h: "requests_get (profile_request getenv user) = Inr user_resp
      \<and> status_code user_resp = 200
      \<and> resp_json user_resp = Some (PDict data)
      \<and> requests_get (starred_request getenv user) = Inr repos_resp
      \<and> status_code repos_resp = 200
      \<and> resp_json repos_resp = Some (PList rs)
      \<and> list_all repo_counted rs"
    then have "sum_stars int_of_str repos_resp = Inr (sum_list (map spec_star_count rs))"
      using sum_stars_counted by blast
    with h have "(if status_code repos_resp = 200 then sum_stars int_of_str repos_resp else Inr 0)
        = Inr (sum_list (map spec_star_count rs))" by simp
    with h show "github_stats int_of_str getenv requests_get user =
        ([profile_request getenv user, starred_request getenv user],
         Inr [(''followers'', dict_get data ''followers'' (PInt 0)),
              (''public_repos'', dict_get data ''public_repos'' (PInt 0)),
              (''stars'', PInt (sum_list (map spec_star_count rs)))])"
      using github_stats_with_stars
        [of requests_get getenv user user_resp data repos_resp int_of_str
            "sum_list (map spec_star_count rs)"]
      by blast
  qed
  have b: "url (starred_request getenv user) =
        ''https://api.github.com/users/'' @ user @ ''/repos?per_page=100&sort=updated''"
    by (simp add: starred_request_def GITHUB_API_def)
  have c: "url (profile_request getenv user) = ''https://api.github.com/users/'' @ user"
    by (simp add: profile_request_def GITHUB_API_def)
  have d: "snd (github_stats int_of_str getenv requests_get user) = Inr result \<longrightarrow>
        map fst result = [''followers'', ''public_repos'', ''stars'']"
    using github_stats_keys by blast
  from a b c d show ?thesis by blast
qed

theorem github_stats_result_witness:
  "snd (github_stats (\<lambda>s. None) (\<lambda>k. None)
      (\<lambda>req. if url req = ''https://api.github.com/users/bob''
              then Inr \<lparr>status_code = 200, resp_text = [],
                        resp_json = Some (PDict [(''followers'', PInt 3), (''public_repos'', PInt 2)])\<rparr>
              else Inr \<lparr>status_code = 200, resp_text = [],
                        resp_json = Some (PList [PDict [(''stargazers_count'', PInt 5)],
                                                 PDict [(''name'', PStr ''x'')],
                                                 PDict [(''stargazers_count'', PInt 2)]])\<rparr>) ''bob'')
     = Inr [(''followers'', PInt 3), (''public_repos'', PInt 2), (''stars'', PInt 7)]"
proof -
  let ?u = "\<lparr>status_code = 200, resp_text = [],
             resp_json = Some (PDict [(''followers'', PInt 3), (''public_repos'', PInt 2)])\<rparr>"
  let ?rs = "[PDict [(''stargazers_count'', PInt 5)], PDict [(''name'', PStr ''x'')],
              PDict [(''stargazers_count'', PInt 2)]]"
  let ?r = "\<lparr>status_code = 200, resp_text = [], resp_json = Some (PList ?rs)\<rparr>"
  let ?up = "\<lambda>req :: request. if url req = ''https://api.github.com/users/bob''
              then (Inr ?u :: exn + response) else Inr ?r"
  have p: "?up (profile_request (\<lambda>k. None) ''bob'') = Inr ?u"
    by (simp add: profile_request_def GITHUB_API_def)
  have s: "?up (starred_request (\<lambda>k. None) ''bob'') = Inr ?r"
    by (simp add: starred_request_def GITHUB_API_def)
  have c: "list_all repo_counted ?rs" by (simp add: repo_counted_def)
  have v: "sum_list (map spec_star_count ?rs) = 7" by (simp add: spec_star_count_def)
  have "github_stats (\<lambda>s. None) (\<lambda>k. None) ?up ''bob'' =
        ([profile_request (\<lambda>k. None) ''bob'', starred_request (\<lambda>k. None) ''bob''],
         Inr [(''followers'', dict_get [(''followers'', PInt 3), (''public_repos'', PInt 2)] ''followers'' (PInt 0)),
              (''public_repos'', dict_get [(''followers'', PInt 3), (''public_repos'', PInt 2)] ''public_repos'' (PInt 0)),
              (''stars'', PInt (sum_list (map spec_star_count ?rs)))])"
    using github_stats_result
      [where requests_get = ?up and getenv = "\<lambda>k. None" and user = "''bob''"
         and user_resp = ?u and data = "[(''followers'', PInt 3), (''public_repos'', PInt 2)]"
         and repos_resp = ?r and rs = ?rs and int_of_str = "\<lambda>s. None", THEN conjunct1] p s c
    by simp
  then show ?thesis by (simp only: v snd_conv) (simp add: dict_get_def)
qed

section \<open>Properties of the repository listing\<close>










lemma map_repo_dict:
  "is_dict r \<Longrightarrow> \<exists>m. map_repo r = Inr m \<and> map fst m = repo_fields"
  by (cases r) (simp_all add: is_dict_def map_repo_def repo_fields_def)

lemma map_repo_keys: "map_repo r = Inr m \<Longrightarrow> map fst m = repo_fields"
  by (cases r) (auto simp: map_repo_def repo_fields_def)

lemma map_repos_keys:
  "map_repos rs = Inr ms \<Longrightarrow> \<forall>m\<in>set ms. map fst m = repo_fields"
proof (induction rs arbitrary: ms)
  case Nil
  then show ?case by simp
next
  case (Cons r rs)
  then obtain m ms' where m: "map_repo r = Inr m" and ms': "map_repos rs = Inr ms'"
    and eq: "ms = m # ms'"
    by (auto split: sum.splits)
  from Cons.IH [OF ms'] map_repo_keys [OF m] eq show ?case by simp
qed

lemma map_repos_dicts:
  "list_all is_dict rs \<Longrightarrow>
     \<exists>ms. map_repos rs = Inr ms \<and> length ms = length rs
        \<and> list_all2 (\<lambda>r m. map_repo r = Inr m) rs ms"
proof (induction rs)
  case Nil
  then show ?case by simp
next
  case (Cons r rs)
  then obtain ms where ms: "map_repos rs = Inr ms" "length ms = length rs"
    "list_all2 (\<lambda>r m. map_repo r = Inr m) rs ms"
    by auto
  from Cons.prems obtain m where m: "map_repo r = Inr m"
    using map_repo_dict [of r] by auto
  from m ms show ?case by simp
qed

lemma map_repo_spec: "is_dict r \<Longrightarrow> map_repo r = Inr (spec_projection r)"
  by (cases r)
     (simp_all add: is_dict_def map_repo_def spec_projection_def spec_field_def repo_fields_def
        dict_get_def split: option.splits)

lemma map_repos_spec:
  "list_all is_dict rs \<Longrightarrow> map_repos rs = Inr (map spec_projection rs)"
proof (induction rs)
  case Nil
  then show ?case by simp
next
  case (Cons r rs)
  then have "map_repo r = Inr (spec_projection r)" and "map_repos rs = Inr (map spec_projection rs)"
    by (simp_all add: map_repo_spec)
  then show ?case by simp
qed

lemma github_repos_trace:
  "fst (github_repos getenv requests_get user la) = [repos_request getenv user (arg_or 12 la)]"
  by (simp add: github_repos_def Let_def split: sum.splits option.splits)

lemma repos_request_url:
  "url (repos_request getenv user l) =
     ''https://api.github.com/users/'' @ user @ ''/repos?per_page='' @ str_int (min l 100)
       @ ''&sort=updated''"
  by (simp add: repos_request_def repos_url_def GITHUB_API_def)

lemma github_repos_failure:
  assumes "requests_get (repos_request getenv user (arg_or 12 la)) = Inr resp"
    and "status_code resp \<noteq> 200"
  shows "snd (github_repos getenv requests_get user la) =
           Inl (HTTPException (status_code resp) (resp_text resp))"
  using assms by (simp add: github_repos_def Let_def)

lemma github_repos_success:
  assumes "requests_get (repos_request getenv user (arg_or 12 la)) = Inr resp"
    and "status_code resp = 200"
    and "resp_json resp = Some (PList rs)"
  shows "snd (github_repos getenv requests_get user la) = map_repos rs"
  using assms by (simp add: github_repos_def Let_def py_iter_def)

lemma github_repos_keys:
  assumes "snd (github_repos getenv requests_get user la) = Inr ms"
  shows "\<forall>m\<in>set ms. map fst m = repo_fields"
proof -
  from assms obtain rs where "map_repos rs = Inr ms"
    by (auto simp: github_repos_def Let_def split: sum.splits if_splits option.splits)
  then show ?thesis by (rule map_repos_keys)
qed

text \<open>
  The repository listing has no lower clamp on the page size and returns whatever the
  upstream replies: with limit 0 and an upstream that replies with one repository, one
  entry is returned, which is more than min(0, 100).
\<close>

theorem github_repos_count_counterexample:
  "\<exists>ms. snd (github_repos (\<lambda>k. None)
                (\<lambda>req. Inr \<lparr>status_code = 200, resp_text = ''[{}]'',
                             resp_json = Some (PList [PDict []])\<rparr>)
                ''octocat'' (Given 0)) = Inr ms
      \<and> \<not> int (length ms) \<le> min 0 100"
  by (simp add: github_repos_def Let_def arg_or_def py_iter_def map_repo_def)

text \<open>
  Claim C3, as amended. For every user name and limit the repository listing makes one
  request, for a page of min(limit, 100) repositories; a reply with a status other than
  200 is surfaced with that status and body; on a reply of repository objects it returns
  exactly one entry per repository of the reply, in order, each entry the projection of
  its repository: the nine fields with the values the upstream gave them (\<^verbatim>\<open>None\<close> for
  a field left out, the empty list for missing \<^verbatim>\<open>topics\<close>) and no other field. So it
  returns at most min(limit, 100) entries whenever the reply holds no more than the
  page size asked for, and every entry of every normal return has exactly the nine
  projection fields.
\<close>

theorem github_repos_projection:
  "fst (github_repos getenv requests_get user la) = [repos_request getenv user (arg_or 12 la)]
   \<and> url (repos_request getenv user l) =
       ''https://api.github.com/users/'' @ user @ ''/repos?per_page='' @ str_int (min l 100)
         @ ''&sort=updated''
   \<and> min l 100 \<le> 100
   \<and> (requests_get (repos_request getenv user (arg_or 12 la)) = Inr resp
        \<and> status_code resp \<noteq> 200 \<longrightarrow>
        snd (github_repos getenv requests_get user la) =
          Inl (HTTPException (status_code resp) (resp_text resp)))
   \<and> (requests_get (repos_request getenv user (arg_or 12 la)) = Inr resp
        \<and> status_code resp = 200
        \<and> resp_json resp = Some (PList rs)
        \<and> list_all is_dict rs \<longrightarrow>
        (\<exists>ms. snd (github_repos getenv requests_get user la) = Inr ms
            \<and> ms = map spec_projection rs
            \<and> length ms = length rs
            \<and> list_all2 (\<lambda>r m. map_repo r = Inr m) rs ms
            \<and> (int (length rs) \<le> min (arg_or 12 la) 100 \<longrightarrow>
                 int (length ms) \<le> min (arg_or 12 la) 100)))
   \<and> (snd (github_repos getenv requests_get user la) = Inr ms' \<longrightarrow>
        (\<forall>m\<in>set ms'. map fst m = repo_fields))
   \<and> repo_fields =
        [''name'', ''full_name'', ''description'', ''html_url'', ''language'',
         ''stargazers_count'', ''forks_count'', ''topics'', ''homepage'']
   \<and> map fst (spec_projection (PDict d)) = repo_fields
   \<and> map_of (spec_projection (PDict d)) k =
        (if k \<in> set repo_fields
         then Some (case map_of d k of
                      Some v \<Rightarrow> v
                    | None \<Rightarrow> if k = ''topics'' then PList [] else PNone)
         else None)"
proof -
  have a: "fst (github_repos getenv requests_get user la) = [repos_request getenv user (arg_or 12 la)]"
    by (rule github_repos_trace)
  have b: "url (repos_request getenv user l) =
       ''https://api.github.com/users/'' @ user @ ''/repos?per_page='' @ str_int (min l 100)
         @ ''&sort=updated''"
    by (rule repos_request_url)
  have c: "min l 100 \<le> 100" by simp
  have d: "requests_get (repos_request getenv user (arg_or 12 la)) = Inr resp
        \<and> status_code resp \<noteq> 200 \<longrightarrow>
        snd (github_repos getenv requests_get user la) =
          Inl (HTTPException (status_code resp) (resp_text resp))"
    using github_repos_failure by blast
  have e: "requests_get (repos_request getenv user (arg_or 12 la)) = Inr resp
        \<and> status_code resp = 200
        \<and> resp_json resp = Some (PList rs)
        \<and> list_all is_dict rs \<longrightarrow>
        (\<exists>ms. snd (github_repos getenv requests_get user la) = Inr ms
            \<and> ms = map spec_projection rs
            \<and> length ms = length rs
            \<and> list_all2 (\<lambda>r m. map_repo r = Inr m) rs ms
            \<and> (int (length rs) \<le> min (arg_or 12 la) 100 \<longrightarrow>
                 int (length ms) \<le> min (arg_or 12 la) 100))"
  proof
    assume h: "requests_get (repos_request getenv user (arg_or 12 la)) = Inr resp
        \<and> status_code resp = 200
        \<and> resp_json resp = Some (PList rs)
        \<and> list_all is_dict rs"
    then have s: "snd (github_repos getenv requests_get user la) = map_repos rs"
      using github_repos_success by blast
    from h obtain ms where ms: "map_repos rs = Inr ms" "length ms = length rs"
      "list_all2 (\<lambda>r m. map_repo r = Inr m) rs ms"
      using map_repos_dicts [of rs] by blast
    from h have "map_repos rs = Inr (map spec_projection rs)"
      using map_repos_spec [of rs] by blast
    with ms(1) have sp: "ms = map spec_projection rs" by simp
    from s ms sp show "\<exists>ms. snd (github_repos getenv requests_get user la) = Inr ms
            \<and> ms = map spec_projection rs
            \<and> length ms = length rs
            \<and> list_all2 (\<lambda>r m. map_repo r = Inr m) rs ms
            \<and> (int (length rs) \<le> min (arg_or 12 la) 100 \<longrightarrow>
                 int (length ms) \<le> min (arg_or 12 la) 100)"
      by auto
  qed
  have f: "snd (github_repos getenv requests_get user la) = Inr ms' \<longrightarrow>
        (\<forall>m\<in>set ms'. map fst m = repo_fields)"
    using github_repos_keys by blast
  have g: "repo_fields =
        [''name'', ''full_name'', ''description'', ''html_url'', ''language'',
         ''stargazers_count'', ''forks_count'', ''topics'', ''homepage'']"
    by (rule repo_fields_def)
  have i: "map fst (spec_projection (PDict d)) = repo_fields"
    by (simp add: spec_projection_def comp_def)
  have j: "map_of (spec_projection (PDict d)) k =
        (if k \<in> set repo_fields
         then Some (case map_of d k of
                      Some v \<Rightarrow> v
                    | None \<Rightarrow> if k = ''topics'' then PList [] else PNone)
         else None)"
    by (simp add: spec_projection_def spec_field_def map_of_map_restrict restrict_map_def)
  from a b c d e f g i j show ?thesis by blast
qed

theorem github_repos_projection_witness:
  "snd (github_repos (\<lambda>k. None)
          (\<lambda>req. Inr \<lparr>status_code = 200, resp_text = [],
                       resp_json = Some (PList [PDict [(''name'', PStr ''r1''), (''size'', PInt 9),
                                                       (''stargazers_count'', PInt 4)],
                                                PDict [(''topics'', PList [PStr ''hol'']),
                                                       (''name'', PStr ''r2'')]])\<rparr>)
          ''bob'' (Given 5))
     = Inr [[(''name'', PStr ''r1''), (''full_name'', PNone), (''description'', PNone),
             (''html_url'', PNone), (''language'', PNone), (''stargazers_count'', PInt 4),
             (''forks_count'', PNone), (''topics'', PList []), (''homepage'', PNone)],
            [(''name'', PStr ''r2''), (''full_name'', PNone), (''description'', PNone),
             (''html_url'', PNone), (''language'', PNone), (''stargazers_count'', PNone),
             (''forks_count'', PNone), (''topics'', PList [PStr ''hol'']), (''homepage'', PNone)]]
   \<and> int (length [PDict [(''name'', PStr ''r1''), (''size'', PInt 9), (''stargazers_count'', PInt 4)],
                   PDict [(''topics'', PList [PStr ''hol'']), (''name'', PStr ''r2'')]])
        \<le> min 5 100"
proof -
  let ?rs = "[PDict [(''name'', PStr ''r1''), (''size'', PInt 9), (''stargazers_count'', PInt 4)],
              PDict [(''topics'', PList [PStr ''hol'']), (''name'', PStr ''r2'')]]"
  let ?r = "\<lparr>status_code = 200, resp_text = [], resp_json = Some (PList ?rs)\<rparr>"
  let ?up = "\<lambda>req :: request. (Inr ?r :: exn + response)"
  have d: "list_all is_dict ?rs" by (simp add: is_dict_def)
  have "\<exists>ms. snd (github_repos (\<lambda>k. None) ?up ''bob'' (Given 5)) = Inr ms
            \<and> ms = map spec_projection ?rs
            \<and> length ms = length ?rs
            \<and> list_all2 (\<lambda>r m. map_repo r = Inr m) ?rs ms
            \<and> (int (length ?rs) \<le> min (arg_or 12 (Given 5)) 100 \<longrightarrow>
                 int (length ms) \<le> min (arg_or 12 (Given 5)) 100)"
    using github_repos_projection
      [where requests_get = ?up and getenv = "\<lambda>k. None" and user = "''bob''" and la = "Given 5"
         and resp = ?r and rs = ?rs,
       THEN conjunct2, THEN conjunct2, THEN conjunct2, THEN conjunct2, THEN conjunct1] d
    by simp
  then have v: "snd (github_repos (\<lambda>k. None) ?up ''bob'' (Given 5)) = Inr (map spec_projection ?rs)"
    by blast
  have p: "map spec_projection ?rs
     = [[(''name'', PStr ''r1''), (''full_name'', PNone), (''description'', PNone),
         (''html_url'', PNone), (''language'', PNone), (''stargazers_count'', PInt 4),
         (''forks_count'', PNone), (''topics'', PList []), (''homepage'', PNone)],
        [(''name'', PStr ''r2''), (''full_name'', PNone), (''description'', PNone),
         (''html_url'', PNone), (''language'', PNone), (''stargazers_count'', PNone),
         (''forks_count'', PNone), (''topics'', PList [PStr ''hol'']), (''homepage'', PNone)]]"
    by (simp add: spec_projection_def spec_field_def repo_fields_def)
  have n: "int (length ?rs) \<le> min 5 100" by simp
  from v p n show ?thesis by simp
qed



end
